theory Spec2Isabelle
  imports Complex_Main
begin

section \<open>Strings, arrays and URLs as the program uses them\<close>

text \<open>
  A JavaScript string is modelled as a \<open>string\<close>. \<open>Array.prototype.join\<close> puts the
  separator between neighbouring elements and gives the empty string for the empty array.
\<close>

fun join :: "string \<Rightarrow> string list \<Rightarrow> string" where
  "join sep [] = []"
| "join sep [x] = x"
| "join sep (x # y # ys) = x @ sep @ join sep (y # ys)"

text \<open>\<open>String.prototype.startsWith\<close>.\<close>

fun startsWith :: "string \<Rightarrow> string \<Rightarrow> bool" where
  "startsWith s [] = True"
| "startsWith [] (p # ps) = False"
| "startsWith (c # s) (p # ps) = (c = p \<and> startsWith s ps)"

text \<open>
  \<open>s.replaceAll(x, y)\<close> for a one-character pattern \<open>x\<close>: every occurrence of the
  character is replaced by the string \<open>y\<close>. The program uses it as
  \<open>replaceAll('-', '')\<close> and \<open>replaceAll(/\//g, '_')\<close>.
\<close>

fun replaceAll :: "char \<Rightarrow> string \<Rightarrow> string \<Rightarrow> string" where
  "replaceAll x y [] = []"
| "replaceAll x y (c # s) = (if c = x then y @ replaceAll x y s else c # replaceAll x y s)"

text \<open>
  \<open>s.split(sep)\<close> for a one-character separator: the pieces between the occurrences of
  the separator, the empty ones included. It serves to read a query string back.
\<close>

fun split_on :: "char \<Rightarrow> string \<Rightarrow> string list" where
  "split_on sep [] = [[]]"
| "split_on sep (c # s) =
     (if c = sep then [] # split_on sep s
      else (case split_on sep s of [] \<Rightarrow> [[c]] | t # ts \<Rightarrow> (c # t) # ts))"

text \<open>
  A \<open>URL\<close> object: the part before the query, and the ordered name-value pairs of its
  \<open>searchParams\<close>. \<open>searchParams.set\<close> overwrites the first pair of that name and
  removes the later ones, or appends a new pair when the name is absent;
  \<open>searchParams.get\<close> reads the first pair of that name.
\<close>

record URL =
  base :: string
  searchParams :: "(string \<times> string) list"

fun params_set :: "string \<Rightarrow> string \<Rightarrow> (string \<times> string) list \<Rightarrow> (string \<times> string) list" where
  "params_set n v [] = [(n, v)]"
| "params_set n v ((k, x) # ps) =
     (if k = n then (n, v) # filter (\<lambda>p. fst p \<noteq> n) ps else (k, x) # params_set n v ps)"

definition searchParams_set :: "string \<Rightarrow> string \<Rightarrow> URL \<Rightarrow> URL" where
  "searchParams_set n v u = u\<lparr>searchParams := params_set n v (searchParams u)\<rparr>"

definition searchParams_get :: "URL \<Rightarrow> string \<Rightarrow> string option" where
  "searchParams_get u n = map_of (searchParams u) n"

definition new_URL :: "string \<Rightarrow> URL" where
  "new_URL s = \<lparr>base = s, searchParams = []\<rparr>"

section \<open>makeSearchURL\<close>

text \<open>
  \<open>SearchURLOpts.qualifiers\<close>: every property that is present holds a string or an
  array of strings. The model is the list \<open>Object.entries\<close> gives, in its order.
\<close>

datatype qualifier_value = Scalar string | Array "string list"

type_synonym qualifiers = "(string \<times> qualifier_value) list"

text \<open>The inner loop \<open>for (const qvd of qv) q.push(`${qk}:${qvd}`)\<close>.\<close>

fun push_each :: "string \<Rightarrow> string list \<Rightarrow> string list \<Rightarrow> string list" where
  "push_each qk [] q = q"
| "push_each qk (qvd # qv) q = push_each qk qv (q @ [qk @ '':'' @ qvd])"

text \<open>The outer loop over \<open>Object.entries(opts.qualifiers)\<close>, with the array \<open>q\<close> so far.\<close>

fun push_entries :: "qualifiers \<Rightarrow> string list \<Rightarrow> string list" where
  "push_entries [] q = q"
| "push_entries ((qk, qv) # es) q =
     push_entries es
       (case qv of
          Array vs \<Rightarrow> push_each qk vs q
        | Scalar v \<Rightarrow> q @ [qk @ '':'' @ v])"

definition makeSearchURL :: "qualifiers \<Rightarrow> URL" where
  "makeSearchURL opts =
     (let url = new_URL ''https://api.github.com/search/code'';
          q = push_entries opts [];
          url = searchParams_set ''q'' (join '' '' q) url;
          url = searchParams_set ''per_page'' ''100'' url;
          url = searchParams_set ''page'' ''1'' url
      in url)"

text \<open>
  The query builder as the specification words it: one \<open>name:value\<close> token per value,
  a scalar giving one token and a sequence one token per element, in encounter order.
\<close>

fun spec_tokens_of :: "string \<times> qualifier_value \<Rightarrow> string list" where
  "spec_tokens_of (k, Scalar v) = [k @ '':'' @ v]"
| "spec_tokens_of (k, Array vs) = map (\<lambda>v. k @ '':'' @ v) vs"

definition spec_tokens :: "qualifiers \<Rightarrow> string list" where
  "spec_tokens opts = concat (map spec_tokens_of opts)"

fun value_count :: "qualifier_value \<Rightarrow> nat" where
  "value_count (Scalar v) = 1"
| "value_count (Array vs) = length vs"

section \<open>Numbers and dates\<close>

text \<open>
  The numbers the program handles (a page number, a result count, an HTTP status, epoch
  seconds) are integers, modelled as \<open>int\<close>; a quotient is taken in the reals. The
  string of an integer, as \<open>'' + n\<close> gives it, is its decimal numeral with a leading
  minus sign for a negative one (JavaScript prints integers below \<open>10^21\<close> this way).
\<close>

fun nat_toString :: "nat \<Rightarrow> string" where
  "nat_toString n =
     (if n < 10 then [''0123456789'' ! n]
      else nat_toString (n div 10) @ [''0123456789'' ! (n mod 10)])"

declare nat_toString.simps [simp del]

definition Number_toString :: "int \<Rightarrow> string" where
  "Number_toString n = (if n < 0 then ''-'' @ nat_toString (nat (- n)) else nat_toString (nat n))"

text \<open>
  \<open>parseInt(s, 10)\<close>: leading white space is skipped, one sign is read, and the longest
  run of decimal digits that follows is the value; without a digit the result is
  \<open>NaN\<close>, here \<open>None\<close>. A header value decodes to code points below 256, among which
  the white space of ECMAScript is the seven characters below.
\<close>

definition isWhiteSpace :: "char \<Rightarrow> bool" where
  "isWhiteSpace c \<longleftrightarrow>
     c = CHR 0x09 \<or> c = CHR 0x0A \<or> c = CHR 0x0B \<or> c = CHR 0x0C \<or> c = CHR 0x0D
     \<or> c = CHR 0x20 \<or> c = CHR 0xA0"

definition digit_value :: "char \<Rightarrow> nat option" where
  "digit_value c =
     map_of [(CHR ''0'', 0), (CHR ''1'', 1), (CHR ''2'', 2), (CHR ''3'', 3), (CHR ''4'', 4),
             (CHR ''5'', 5), (CHR ''6'', 6), (CHR ''7'', 7), (CHR ''8'', 8), (CHR ''9'', 9)] c"

text \<open>The digits read so far are worth \<open>acc\<close>; reading stops at the first non-digit.\<close>

fun read_digits :: "string \<Rightarrow> nat option \<Rightarrow> nat option" where
  "read_digits [] acc = acc"
| "read_digits (c # s) acc =
     (case digit_value c of
        None \<Rightarrow> acc
      | Some d \<Rightarrow> read_digits s (Some ((case acc of None \<Rightarrow> 0 | Some a \<Rightarrow> a) * 10 + d)))"

fun read_sign :: "string \<Rightarrow> int \<times> string" where
  "read_sign [] = (1, [])"
| "read_sign (c # s) =
     (if c = CHR ''-'' then (- 1, s) else if c = CHR ''+'' then (1, s) else (1, c # s))"

definition parseInt :: "string \<Rightarrow> int option" where
  "parseInt s =
     (case read_sign (dropWhile isWhiteSpace s) of
        (sign, digits) \<Rightarrow> map_option (\<lambda>n. sign * int n) (read_digits digits None))"

text \<open>
  A \<open>Date\<close> holds a time value in milliseconds since the epoch, or is invalid.
  \<open>new Date(t)\<close> is invalid for \<open>NaN\<close> and for a time value beyond
  \<open>8.64e15\<close> milliseconds on either side of the epoch.
\<close>

datatype Date = Time int | InvalidDate

definition new_Date :: "int option \<Rightarrow> Date" where
  "new_Date t =
     (case t of
        None \<Rightarrow> InvalidDate
      | Some ms \<Rightarrow> if \<bar>ms\<bar> \<le> 8640000000000000 then Time ms else InvalidDate)"

section \<open>Data model\<close>

text \<open>
  The options of a page sync; \<open>page\<close> is \<open>None\<close> when the property is absent. The
  total of the page counts is \<open>total'\<close> here, \<open>total\<close> being a constant of HOL.
\<close>

record SyncSearchPageOpts =
  ghToken :: string
  outdir :: string
  url :: URL
  page :: "int option"

record pages =
  remaining :: int
  total' :: int

datatype SyncSearchPageError = Unauthorized | RateLimited "Date option"

datatype SyncSearchPageResult = Success pages | Error SyncSearchPageError

text \<open>
  The response of the code search, of the type the program declares for the parsed body.
  The repository's name is \<open>repo_name\<close> here, since the item has a \<open>name\<close> of
  its own.
\<close>

record Owner =
  login :: string

record Repository =
  repo_name :: string
  fork :: bool
  owner :: Owner

record Item =
  score :: real
  name :: string
  path :: string
  repository :: Repository

record CodeSearchResponse =
  total_count :: int
  incomplete_results :: bool
  items :: "Item list"

text \<open>
  The body of the GraphQL response, as far as \<open>json.data[key].object?.text\<close> reads it.
  \<open>data\<close> is \<open>None\<close> when the body has no \<open>data\<close> object; a key maps to \<open>None\<close>
  when the alias is missing or \<open>null\<close> (reading \<open>.object\<close> from it is a
  \<open>TypeError\<close> in both cases); \<open>object\<close> is \<open>None\<close> for \<open>null\<close>;
  \<open>blob_text\<close> is \<open>None\<close> when the object has no \<open>text\<close> or a \<open>null\<close> one.
\<close>

record GitObject =
  blob_text :: "string option"

record RepositoryNode =
  object :: "GitObject option"

record GraphQLBody =
  data :: "(string \<rightharpoonup> RepositoryNode) option"

text \<open>
  A \<open>Response\<close>: the status, \<open>headers.get\<close> as a map, and what \<open>response.json()\<close>
  resolves to (\<open>None\<close> when it rejects because the body is not JSON).
\<close>

record 'b Response =
  status :: int
  headers :: "string \<rightharpoonup> string"
  json :: "'b option"

section \<open>Effects\<close>

text \<open>
  What the program does to the outside is recorded in order: the requests it sends, the
  directory it creates, the files it writes, the line it logs. A \<open>GET\<close> carries the URL
  object whose \<open>toString()\<close> is fetched and the \<open>Authorization\<close> header; a
  \<open>POST\<close> the address, the \<open>Authorization\<close> header and the \<open>query\<close> of its JSON
  body. \<open>WriteFile d f c\<close> is \<open>writeFile(join(d, f), c)\<close>. The file system calls
  are taken to succeed. The world also counts the calls of \<open>randomUUID\<close>.
\<close>

datatype request = GET URL string | POST string string string

datatype event =
    Fetch request
  | Mkdir string
  | WriteFile string string string
  | ConsoleLog string int "string option"

record world =
  trace :: "event list"
  uuids_drawn :: nat

definition emit :: "event \<Rightarrow> world \<Rightarrow> world" where
  "emit e w = w\<lparr>trace := trace w @ [e]\<rparr>"

text \<open>
  The outside: what \<open>fetch\<close> resolves to for a search request and for a GraphQL request
  (\<open>None\<close> when it rejects), and the value of the n-th call of \<open>randomUUID\<close>.
\<close>

record env =
  search_api :: "request \<Rightarrow> CodeSearchResponse Response option"
  graphql_api :: "request \<Rightarrow> GraphQLBody Response option"
  randomUUID :: "nat \<Rightarrow> string"

text \<open>
  A call returns a value, throws (a rejected promise included), or ends the process with
  an exit code. \<open>await\<close> continues with the value of a call that returned.
\<close>

datatype exn = FetchFailed | SyntaxError | TypeError

datatype 'a outcome = Return 'a | Throw exn | Exit int

definition await :: "'a outcome \<times> world \<Rightarrow> ('a \<Rightarrow> world \<Rightarrow> 'b outcome \<times> world) \<Rightarrow> 'b outcome \<times> world" where
  "await m k =
     (case m of
        (Return x, w) \<Rightarrow> k x w
      | (Throw e, w) \<Rightarrow> (Throw e, w)
      | (Exit c, w) \<Rightarrow> (Exit c, w))"

section \<open>errorFromGitHubResponse and codeSearch\<close>

definition is_json :: "'b Response \<Rightarrow> bool" where
  "is_json response =
     (case headers response ''content-type'' of
        None \<Rightarrow> False
      | Some ct \<Rightarrow> startsWith ct ''application/json'')"

definition errorFromGitHubResponse ::
  "'b Response \<Rightarrow> world \<Rightarrow> SyncSearchPageError option outcome \<times> world" where
  "errorFromGitHubResponse response w =
     (if \<not> is_json response then
        (Exit 1,
         emit (ConsoleLog ''search/code'' (status response) (headers response ''content-type'')) w)
      else if status response = 401 then (Return (Some Unauthorized), w)
      else if status response = 403 then
        (let rateLimitReset = headers response ''x-ratelimit-reset'' in
         (Return (Some (RateLimited
            (case rateLimitReset of
               None \<Rightarrow> None
             | Some h \<Rightarrow>
                 if h \<noteq> [] then Some (new_Date (map_option (\<lambda>n. n * 1000) (parseInt h)))
                 else None))), w))
      else (Return None, w))"

definition codeSearch ::
  "env \<Rightarrow> SyncSearchPageOpts \<Rightarrow> world \<Rightarrow> (SyncSearchPageError + CodeSearchResponse) outcome \<times> world" where
  "codeSearch e syncOpts w =
     (let req = GET (url syncOpts) (''Bearer '' @ ghToken syncOpts);
          w = emit (Fetch req) w
      in case search_api e req of
           None \<Rightarrow> (Throw FetchFailed, w)
         | Some response \<Rightarrow>
             await (errorFromGitHubResponse response w) (\<lambda>maybeError w.
               case maybeError of
                 Some err \<Rightarrow> (Return (Inl err), w)
               | None \<Rightarrow>
                   (case json response of
                      None \<Rightarrow> (Throw SyntaxError, w)
                    | Some body \<Rightarrow> (Return (Inr body), w))))"

section \<open>retrieveObjectContents\<close>

definition dquote :: string where
  "dquote = [CHR 0x22]"

definition graphQueryForObjectText :: "string \<Rightarrow> string \<Rightarrow> string \<Rightarrow> string \<Rightarrow> string" where
  "graphQueryForObjectText key own repo pth =
     key @ '': repository(owner: '' @ dquote @ own @ dquote @ '', name: '' @ dquote @ repo
       @ dquote @ '') {\<newline>''
     @ ''    object(expression: '' @ dquote @ ''HEAD:'' @ pth @ dquote @ '') {\<newline>''
     @ ''        ... on Blob {\<newline>''
     @ ''            text\<newline>''
     @ ''        }\<newline>''
     @ ''    }\<newline>''
     @ ''}''"

text \<open>The key of the call of \<open>randomUUID\<close> numbered \<open>n\<close>: \<open>`q${randomUUID().replaceAll('-', '')}`\<close>.\<close>

definition fresh_key :: "env \<Rightarrow> nat \<Rightarrow> string" where
  "fresh_key e n = ''q'' @ replaceAll CHR ''-'' [] (randomUUID e n)"

text \<open>
  The first loop, over the items, with the arrays \<open>qKeys\<close> and \<open>qParts\<close> so far; every
  round draws one UUID.
\<close>

fun build_parts ::
  "env \<Rightarrow> Item list \<Rightarrow> string list \<Rightarrow> string list \<Rightarrow> world \<Rightarrow> (string list \<times> string list) \<times> world" where
  "build_parts e [] qKeys qParts w = ((qKeys, qParts), w)"
| "build_parts e (item # rest) qKeys qParts w =
     (let key = fresh_key e (uuids_drawn w);
          w = w\<lparr>uuids_drawn := Suc (uuids_drawn w)\<rparr>
      in build_parts e rest (qKeys @ [key])
           (qParts @ [graphQueryForObjectText key (login (owner (repository item)))
                        (repo_name (repository item)) (path item)]) w)"

text \<open>\<open>json.data[key].object?.text || null\<close>, once \<open>json.data[key]\<close> is an object.\<close>

definition text_or_null :: "RepositoryNode \<Rightarrow> string option" where
  "text_or_null node =
     (case object node of
        None \<Rightarrow> None
      | Some ob \<Rightarrow>
          (case blob_text ob of
             None \<Rightarrow> None
           | Some t \<Rightarrow> if t \<noteq> [] then Some t else None))"

text \<open>The second loop, over the keys, with the array \<open>objectContents\<close> so far.\<close>

fun read_contents ::
  "GraphQLBody \<Rightarrow> string list \<Rightarrow> string option list \<Rightarrow> string option list outcome" where
  "read_contents body [] objectContents = Return objectContents"
| "read_contents body (key # keys) objectContents =
     (case data body of
        None \<Rightarrow> Throw TypeError
      | Some d \<Rightarrow>
          (case d key of
             None \<Rightarrow> Throw TypeError
           | Some node \<Rightarrow> read_contents body keys (objectContents @ [text_or_null node])))"

definition retrieveObjectContents ::
  "env \<Rightarrow> string \<Rightarrow> Item list \<Rightarrow> world \<Rightarrow> (SyncSearchPageError + string option list) outcome \<times> world" where
  "retrieveObjectContents e token its w =
     (case build_parts e its [] [] w of
        ((qKeys, qParts), w) \<Rightarrow>
          (let query = ''query {\<newline>'' @ join ''\<newline>'' qParts @ ''\<newline>}'';
               req = POST ''https://api.github.com/graphql'' (''Bearer '' @ token) query;
               w = emit (Fetch req) w
           in case graphql_api e req of
                None \<Rightarrow> (Throw FetchFailed, w)
              | Some response \<Rightarrow>
                  await (errorFromGitHubResponse response w) (\<lambda>maybeError w.
                    case maybeError of
                      Some err \<Rightarrow> (Return (Inl err), w)
                    | None \<Rightarrow>
                        (case json response of
                           None \<Rightarrow> (Throw SyntaxError, w)
                         | Some body \<Rightarrow>
                             (case read_contents body qKeys [] of
                                Return objectContents \<Rightarrow> (Return (Inr objectContents), w)
                              | Throw x \<Rightarrow> (Throw x, w)
                              | Exit c \<Rightarrow> (Exit c, w))))))"

section \<open>syncToOutdir\<close>

text \<open>\<open>contents[i]\<close>: \<open>undefined\<close> beyond the end of the array, which is as falsy as \<open>null\<close>.\<close>

definition at_index :: "string option list \<Rightarrow> nat \<Rightarrow> string option" where
  "at_index contents i = (if i < length contents then contents ! i else None)"

definition flat_filename :: "Item \<Rightarrow> string" where
  "flat_filename item =
     login (owner (repository item)) @ ''_'' @ repo_name (repository item) @ ''_''
     @ replaceAll CHR ''/'' ''_'' (path item)"

text \<open>One round of the loop, for the index \<open>i\<close> below \<open>items.length\<close>.\<close>

definition write_item :: "string \<Rightarrow> Item list \<Rightarrow> string option list \<Rightarrow> nat \<Rightarrow> world \<Rightarrow> world" where
  "write_item dir its contents i w =
     (case at_index contents i of
        None \<Rightarrow> w
      | Some objectContent \<Rightarrow>
          if objectContent = [] then w
          else emit (WriteFile dir (flat_filename (its ! i)) objectContent) w)"

function write_loop :: "string \<Rightarrow> Item list \<Rightarrow> string option list \<Rightarrow> nat \<Rightarrow> world \<Rightarrow> world" where
  "write_loop dir its contents i w =
     (if i < length its then write_loop dir its contents (Suc i) (write_item dir its contents i w)
      else w)"
  by pat_completeness auto
termination
  by (relation "measure (\<lambda>(dir, its, contents, i, w). length its - i)") auto

declare write_loop.simps [simp del]

definition syncToOutdir :: "string \<Rightarrow> Item list \<Rightarrow> string option list \<Rightarrow> world \<Rightarrow> unit outcome \<times> world" where
  "syncToOutdir dir its contents w =
     (let w = emit (Mkdir dir) w;
          w = write_loop dir its contents 0 w
      in (Return (), w))"

section \<open>syncSearchPage\<close>

text \<open>
  \<open>syncOpts.page\<close> is truthy when it is a number other than zero. The call changes the
  caller's URL object, so the URL after the call is returned beside the outcome.
\<close>

definition page_or_1 :: "int option \<Rightarrow> int" where
  "page_or_1 p = (case p of None \<Rightarrow> 1 | Some n \<Rightarrow> if n \<noteq> 0 then n else 1)"

definition set_page :: "SyncSearchPageOpts \<Rightarrow> SyncSearchPageOpts" where
  "set_page syncOpts =
     (case page syncOpts of
        None \<Rightarrow> syncOpts
      | Some n \<Rightarrow>
          if n \<noteq> 0 then syncOpts\<lparr>url := searchParams_set ''page'' (Number_toString n) (url syncOpts)\<rparr>
          else syncOpts)"

definition syncSearchPage ::
  "env \<Rightarrow> SyncSearchPageOpts \<Rightarrow> world \<Rightarrow> SyncSearchPageResult outcome \<times> URL \<times> world" where
  "syncSearchPage e syncOpts0 w =
     (let syncOpts = set_page syncOpts0;
          (r, w) =
            await (codeSearch e syncOpts w) (\<lambda>searchResponse w.
              case searchResponse of
                Inl err \<Rightarrow> (Return (Error err), w)
              | Inr searchResponse \<Rightarrow>
                  await (retrieveObjectContents e (ghToken syncOpts) (items searchResponse) w)
                    (\<lambda>contents w.
                      case contents of
                        Inl err \<Rightarrow> (Return (Error err), w)
                      | Inr contents \<Rightarrow>
                          await (syncToOutdir (outdir syncOpts) (items searchResponse) contents w)
                            (\<lambda>u w.
                              let pageCount = \<lceil>real_of_int (total_count searchResponse) / 100\<rceil>
                              in (Return (Success
                                    \<lparr>remaining = pageCount - page_or_1 (page syncOpts),
                                     total' = pageCount\<rparr>), w))))
      in (r, url syncOpts, w))"

section \<open>The request and the files of a page, in closed form\<close>

text \<open>
  The query fragment of one item under a key, the key of the i-th item of a batch that
  starts in world \<open>w\<close>, and the one request a batch sends.
\<close>

definition fragment_for :: "string \<Rightarrow> Item \<Rightarrow> string" where
  "fragment_for key item =
     graphQueryForObjectText key (login (owner (repository item))) (repo_name (repository item))
       (path item)"

definition key_at :: "env \<Rightarrow> world \<Rightarrow> nat \<Rightarrow> string" where
  "key_at e w i = fresh_key e (uuids_drawn w + i)"

definition batch_request :: "env \<Rightarrow> string \<Rightarrow> Item list \<Rightarrow> world \<Rightarrow> request" where
  "batch_request e token its w =
     POST ''https://api.github.com/graphql'' (''Bearer '' @ token)
       (''query {\<newline>''
        @ join ''\<newline>'' (map (\<lambda>i. fragment_for (key_at e w i) (its ! i)) [0..<length its])
        @ ''\<newline>}'')"

text \<open>
  The flat file name of the specification, the files one item gives rise to (none for a
  \<open>null\<close> or empty content), and the files of a page in item order.
\<close>

definition spec_filename :: "string \<Rightarrow> string \<Rightarrow> string \<Rightarrow> string" where
  "spec_filename own repo pth =
     own @ ''_'' @ repo @ ''_'' @ map (\<lambda>c. if c = CHR ''/'' then CHR ''_'' else c) pth"

definition item_writes :: "string \<Rightarrow> Item \<Rightarrow> string option \<Rightarrow> event list" where
  "item_writes dir item c =
     (case c of
        None \<Rightarrow> []
      | Some x \<Rightarrow>
          if x = [] then []
          else [WriteFile dir
                  (spec_filename (login (owner (repository item))) (repo_name (repository item))
                     (path item)) x])"

definition expected_writes :: "string \<Rightarrow> Item list \<Rightarrow> string option list \<Rightarrow> event list" where
  "expected_writes dir its contents =
     concat (map (\<lambda>(item, c). item_writes dir item c) (zip its contents))"

text \<open>
  The files as the specification words them: one file for each item whose content is not
  \<open>null\<close>, in item order.
\<close>

definition spec_item_writes :: "string \<Rightarrow> Item \<Rightarrow> string option \<Rightarrow> event list" where
  "spec_item_writes dir item c =
     (case c of
        None \<Rightarrow> []
      | Some x \<Rightarrow>
          [WriteFile dir
             (spec_filename (login (owner (repository item))) (repo_name (repository item))
                (path item)) x])"

definition spec_writes :: "string \<Rightarrow> Item list \<Rightarrow> string option list \<Rightarrow> event list" where
  "spec_writes dir its contents =
     concat (map (\<lambda>(item, c). spec_item_writes dir item c) (zip its contents))"

section \<open>Example inputs\<close>

text \<open>
  One page of one matched file \<open>a/b/c.sql\<close> of repository \<open>o/r\<close> out of 250 results,
  whose text is \<open>X\<close>; both services answer with status 200 and a JSON content type.
\<close>

definition world0 :: world where
  "world0 = \<lparr>trace = [], uuids_drawn = 0\<rparr>"

definition json_headers :: "string \<rightharpoonup> string" where
  "json_headers = [''content-type'' \<mapsto> ''application/json; charset=utf-8'']"

definition example_item :: Item where
  "example_item =
     \<lparr>score = 1, name = ''c.sql'', path = ''a/b/c.sql'',
      repository = \<lparr>repo_name = ''r'', fork = False, owner = \<lparr>login = ''o''\<rparr>\<rparr>\<rparr>"

definition example_search :: "CodeSearchResponse Response" where
  "example_search =
     \<lparr>status = 200, headers = json_headers,
      json = Some \<lparr>total_count = 250, incomplete_results = False, items = [example_item]\<rparr>\<rparr>"

definition example_graphql :: "string \<Rightarrow> GraphQLBody Response" where
  "example_graphql t =
     \<lparr>status = 200, headers = json_headers,
      json = Some \<lparr>data = Some [''qabcd'' \<mapsto> \<lparr>object = Some \<lparr>blob_text = Some t\<rparr>\<rparr>]\<rparr>\<rparr>"

definition example_env :: env where
  "example_env =
     \<lparr>search_api = (\<lambda>req. Some example_search),
      graphql_api = (\<lambda>req. Some (example_graphql ''X'')),
      randomUUID = (\<lambda>n. ''ab-cd'')\<rparr>"

definition example_opts :: SyncSearchPageOpts where
  "example_opts =
     \<lparr>ghToken = ''t'', outdir = ''out'',
      url = makeSearchURL [(''extension'', Scalar ''sql'')], page = None\<rparr>"

text \<open>
  A page of two matched files, \<open>a/b/c.sql\<close> of \<open>o/r\<close> and \<open>x/y.cql\<close> of \<open>p/s\<close>.
  The two UUIDs drawn differ; the first file has the text \<open>X\<close> and the second is gone
  (its object is \<open>null\<close>). \<open>example_query2\<close> is the query the program sends for
  this page, written out.
\<close>

definition example_item2 :: Item where
  "example_item2 =
     \<lparr>score = 1, name = ''y.cql'', path = ''x/y.cql'',
      repository = \<lparr>repo_name = ''s'', fork = False, owner = \<lparr>login = ''p''\<rparr>\<rparr>\<rparr>"

definition example_env2 :: env where
  "example_env2 =
     \<lparr>search_api = (\<lambda>req. Some
        \<lparr>status = 200, headers = json_headers,
         json = Some \<lparr>total_count = 250, incomplete_results = False,
                      items = [example_item, example_item2]\<rparr>\<rparr>),
      graphql_api = (\<lambda>req. Some
        \<lparr>status = 200, headers = json_headers,
         json = Some \<lparr>data = Some [''qa1b2'' \<mapsto> \<lparr>object = Some \<lparr>blob_text = Some ''X''\<rparr>\<rparr>,
                                   ''qc3d4'' \<mapsto> \<lparr>object = None\<rparr>]\<rparr>\<rparr>),
      randomUUID = (\<lambda>n. if n = 0 then ''a1-b2'' else ''c3-d4'')\<rparr>"

definition example_query2 :: string where
  "example_query2 =
     ''query {\<newline>''
     @ ''qa1b2: repository(owner: '' @ [CHR 0x22] @ ''o'' @ [CHR 0x22] @ '', name: ''
     @ [CHR 0x22] @ ''r'' @ [CHR 0x22] @ '') {\<newline>''
     @ ''    object(expression: '' @ [CHR 0x22] @ ''HEAD:a/b/c.sql'' @ [CHR 0x22] @ '') {\<newline>''
     @ ''        ... on Blob {\<newline>''
     @ ''            text\<newline>''
     @ ''        }\<newline>''
     @ ''    }\<newline>''
     @ ''}\<newline>''
     @ ''qc3d4: repository(owner: '' @ [CHR 0x22] @ ''p'' @ [CHR 0x22] @ '', name: ''
     @ [CHR 0x22] @ ''s'' @ [CHR 0x22] @ '') {\<newline>''
     @ ''    object(expression: '' @ [CHR 0x22] @ ''HEAD:x/y.cql'' @ [CHR 0x22] @ '') {\<newline>''
     @ ''        ... on Blob {\<newline>''
     @ ''            text\<newline>''
     @ ''        }\<newline>''
     @ ''    }\<newline>''
     @ ''}\<newline>''
     @ ''}''"

text \<open>Responses of the other kinds: a bad credential, a rate limit, and a page that is not JSON.\<close>

definition unauthorized_response :: "'b Response" where
  "unauthorized_response = \<lparr>status = 401, headers = json_headers, json = None\<rparr>"

definition rate_limited_response :: "string option \<Rightarrow> 'b Response" where
  "rate_limited_response reset =
     \<lparr>status = 403,
      headers = (\<lambda>h. if h = ''x-ratelimit-reset'' then reset else json_headers h),
      json = None\<rparr>"

definition html_response :: "'b Response" where
  "html_response = \<lparr>status = 200, headers = [''content-type'' \<mapsto> ''text/html''], json = None\<rparr>"

section \<open>Properties of makeSearchURL\<close>

lemma push_each_eq: "push_each qk qv q = q @ map (\<lambda>v. qk @ '':'' @ v) qv"
  by (induction qv arbitrary: q) simp_all

lemma push_entries_eq: "push_entries es q = q @ spec_tokens es"
proof (induction es arbitrary: q)
  case Nil
  show ?case by (simp add: spec_tokens_def)
next
  case (Cons e es)
  obtain qk qv where e: "e = (qk, qv)" by (cases e)
  show ?case
    by (cases qv) (simp_all add: e Cons.IH push_each_eq spec_tokens_def)
qed

lemma length_spec_tokens: "length (spec_tokens opts) = sum_list (map (value_count \<circ> snd) opts)"
proof (induction opts)
  case Nil
  show ?case by (simp add: spec_tokens_def)
next
  case (Cons e es)
  obtain qk qv where e: "e = (qk, qv)" by (cases e)
  from Cons.IH show ?case
    by (cases qv) (simp_all add: e spec_tokens_def)
qed

lemma split_on_single: "sep \<notin> set x \<Longrightarrow> split_on sep x = [x]"
  by (induction x) auto

lemma split_on_append: "sep \<notin> set x \<Longrightarrow> split_on sep (x @ sep # s) = x # split_on sep s"
  by (induction x) auto

lemma split_on_join:
  "ts \<noteq> [] \<Longrightarrow> \<forall>t \<in> set ts. sep \<notin> set t \<Longrightarrow> split_on sep (join [sep] ts) = ts"
  by (induction "[sep]" ts rule: join.induct) (simp_all add: split_on_single split_on_append)

text \<open>
  C2. The URL built from a qualifier mapping carries as \<open>q\<close> the tokens of the
  specification joined by single spaces: one \<open>key:value\<close> token per scalar value or
  array element, in encounter order. Read back, the query string is one character longer
  than its tokens are together when each is counted with one separator, it has one space
  between neighbouring tokens beside the spaces of the tokens themselves, and when no
  token holds a space, splitting it at the spaces gives exactly the tokens. Its
  \<open>per_page\<close> is \<open>100\<close> and its \<open>page\<close> is \<open>1\<close>, and it has no other parameter.
  This holds for every mapping, so in particular for those with at least one entry.
\<close>

theorem makeSearchURL_query:
  "searchParams_get (makeSearchURL opts) ''q'' = Some (join '' '' (spec_tokens opts))
   \<and> length (spec_tokens opts) = sum_list (map (value_count \<circ> snd) opts)
   \<and> searchParams_get (makeSearchURL opts) ''per_page'' = Some ''100''
   \<and> searchParams_get (makeSearchURL opts) ''page'' = Some ''1''
   \<and> searchParams (makeSearchURL opts) =
       [(''q'', join '' '' (spec_tokens opts)), (''per_page'', ''100''), (''page'', ''1'')]
   \<and> base (makeSearchURL opts) = ''https://api.github.com/search/code''
   \<and> (spec_tokens opts \<noteq> [] \<and> (\<forall>t \<in> set (spec_tokens opts). CHR '' '' \<notin> set t) \<longrightarrow>
        (\<exists>q. searchParams_get (makeSearchURL opts) ''q'' = Some q
              \<and> split_on CHR '' '' q = spec_tokens opts))
   \<and> (spec_tokens opts \<noteq> [] \<longrightarrow>
        (\<exists>q. searchParams_get (makeSearchURL opts) ''q'' = Some q
              \<and> length q + 1 = sum_list (map (\<lambda>t. length t + 1) (spec_tokens opts))
              \<and> length (filter (\<lambda>c. c = CHR '' '') q) + 1 =
                  sum_list (map (\<lambda>t. length (filter (\<lambda>c. c = CHR '' '') t) + 1) (spec_tokens opts))))"
proof -
  have q: "searchParams_get (makeSearchURL opts) ''q'' = Some (join '' '' (spec_tokens opts))"
    by (simp add: makeSearchURL_def new_URL_def searchParams_set_def searchParams_get_def
        push_entries_eq)
  have len: "ts \<noteq> [] \<Longrightarrow> length (join sep ts) + length sep =
      sum_list (map (\<lambda>t. length t + length sep) ts)" for sep ts
    by (induction sep ts rule: join.induct) simp_all
  have cnt: "ts \<noteq> [] \<Longrightarrow> length (filter P (join sep ts)) + length (filter P sep) =
      sum_list (map (\<lambda>t. length (filter P t) + length (filter P sep)) ts)" for sep ts P
    by (induction sep ts rule: join.induct) simp_all
  have split: "split_on CHR '' '' (join '' '' (spec_tokens opts)) = spec_tokens opts"
    if "spec_tokens opts \<noteq> []" "\<forall>t \<in> set (spec_tokens opts). CHR '' '' \<notin> set t"
    using that by (rule split_on_join)
  from q split len [of "spec_tokens opts" "'' ''"]
    cnt [of "spec_tokens opts" "\<lambda>c. c = CHR '' ''" "'' ''"]
  show ?thesis
    by (simp add: makeSearchURL_def new_URL_def searchParams_set_def searchParams_get_def
        push_entries_eq length_spec_tokens)
qed

theorem makeSearchURL_query_witness:
  "spec_tokens [(''extension'', Array [''cql'', ''sql'']), (''user'', Scalar ''apache'')] =
     [''extension:cql'', ''extension:sql'', ''user:apache'']
   \<and> searchParams_get
        (makeSearchURL [(''extension'', Array [''cql'', ''sql'']), (''user'', Scalar ''apache'')]) ''q'' =
       Some ''extension:cql extension:sql user:apache''
   \<and> split_on CHR '' '' ''extension:cql extension:sql user:apache'' =
       [''extension:cql'', ''extension:sql'', ''user:apache'']
   \<and> searchParams
        (makeSearchURL [(''extension'', Array [''cql'', ''sql'']), (''user'', Scalar ''apache'')]) =
       [(''q'', ''extension:cql extension:sql user:apache''), (''per_page'', ''100''),
        (''page'', ''1'')]"
proof -
  let ?opts = "[(''extension'', Array [''cql'', ''sql'']), (''user'', Scalar ''apache'')]"
  have toks: "spec_tokens ?opts = [''extension:cql'', ''extension:sql'', ''user:apache'']"
    by (simp add: spec_tokens_def)
  have hyp: "spec_tokens ?opts \<noteq> [] \<and> (\<forall>t \<in> set (spec_tokens ?opts). CHR '' '' \<notin> set t)"
    by (simp add: toks)
  from makeSearchURL_query [of ?opts] hyp
  show ?thesis by (simp add: toks)
qed

section \<open>The loops of the fetcher and the writer\<close>

lemma map_upt_shift:
  "map (\<lambda>i. f (n + i)) [0..<Suc k] = f n # map (\<lambda>i. f (Suc n + i)) [0..<k]"
  by (simp add: upt_conv_Cons map_Suc_upt [symmetric] del: upt_Suc)

lemma build_parts_eq:
  "build_parts e its qKeys qParts w =
     ((qKeys @ map (key_at e w) [0..<length its],
       qParts @ map (\<lambda>i. fragment_for (key_at e w i) (its ! i)) [0..<length its]),
      w\<lparr>uuids_drawn := uuids_drawn w + length its\<rparr>)"
proof (induction its arbitrary: qKeys qParts w)
  case Nil
  show ?case by simp
next
  case (Cons item rest)
  have keys: "map (key_at e w) [0..<length (item # rest)] =
      fresh_key e (uuids_drawn w)
      # map (key_at e (w\<lparr>uuids_drawn := Suc (uuids_drawn w)\<rparr>)) [0..<length rest]"
    using map_upt_shift [of "fresh_key e" "uuids_drawn w" "length rest"]
    by (simp add: key_at_def [abs_def] del: upt_Suc)
  have parts: "map (\<lambda>i. fragment_for (key_at e w i) ((item # rest) ! i)) [0..<length (item # rest)] =
      fragment_for (fresh_key e (uuids_drawn w)) item
      # map (\<lambda>i. fragment_for (key_at e (w\<lparr>uuids_drawn := Suc (uuids_drawn w)\<rparr>) i) (rest ! i))
          [0..<length rest]"
    by (simp add: key_at_def upt_conv_Cons map_Suc_upt [symmetric] del: upt_Suc)
  show ?case
    unfolding keys parts
    by (simp add: Cons.IH fragment_for_def Let_def)
qed

lemma read_contents_Return:
  "read_contents body keys acc = Return cs \<Longrightarrow>
   \<exists>rest. cs = acc @ rest \<and> length rest = length keys \<and>
     (\<forall>i<length keys. \<exists>d node. data body = Some d \<and> d (keys ! i) = Some node
        \<and> rest ! i = text_or_null node)"
proof (induction keys arbitrary: acc)
  case Nil
  then show ?case by simp
next
  case (Cons key keys)
  from Cons.prems obtain d node where d: "data body = Some d" and node: "d key = Some node"
    and rec: "read_contents body keys (acc @ [text_or_null node]) = Return cs"
    by (auto split: option.splits)
  from Cons.IH [OF rec] obtain rest where rest: "cs = (acc @ [text_or_null node]) @ rest"
    "length rest = length keys"
    "\<forall>i<length keys. \<exists>d node. data body = Some d \<and> d (keys ! i) = Some node
        \<and> rest ! i = text_or_null node"
    by blast
  have "\<forall>i<length (key # keys). \<exists>d n. data body = Some d \<and> d ((key # keys) ! i) = Some n
        \<and> (text_or_null node # rest) ! i = text_or_null n"
  proof (intro allI impI)
    fix i assume "i < length (key # keys)"
    then show "\<exists>d n. data body = Some d \<and> d ((key # keys) ! i) = Some n
        \<and> (text_or_null node # rest) ! i = text_or_null n"
      using d node rest(3) by (cases i) auto
  qed
  then show ?case
    using rest(1,2) by (intro exI [of _ "text_or_null node # rest"]) simp
qed

lemma errorFromGitHubResponse_Return:
  "errorFromGitHubResponse r w = (Return x, w1) \<Longrightarrow>
   w1 = w \<and> is_json r \<and> (x = None \<longrightarrow> status r \<noteq> 401 \<and> status r \<noteq> 403)"
  by (auto simp: errorFromGitHubResponse_def Let_def split: if_splits)

lemma errorFromGitHubResponse_None:
  "errorFromGitHubResponse r w = (Return None, w1) \<Longrightarrow>
   w1 = w \<and> is_json r \<and> status r \<noteq> 401 \<and> status r \<noteq> 403"
  by (auto simp: errorFromGitHubResponse_def Let_def split: if_splits)

lemma retrieveObjectContents_Inr:
  assumes "retrieveObjectContents e token its w = (Return (Inr contents), w1)"
  shows "\<exists>response body.
           graphql_api e (batch_request e token its w) = Some response
           \<and> is_json response \<and> status response \<noteq> 401 \<and> status response \<noteq> 403
           \<and> json response = Some body
           \<and> read_contents body (map (key_at e w) [0..<length its]) [] = Return contents
           \<and> w1 = emit (Fetch (batch_request e token its w))
                     (w\<lparr>uuids_drawn := uuids_drawn w + length its\<rparr>)"
  using assms
  by (auto simp: retrieveObjectContents_def build_parts_eq Let_def await_def batch_request_def
      split: option.splits outcome.splits prod.splits
      dest!: errorFromGitHubResponse_None)

lemma replaceAll_char: "replaceAll x [y] s = map (\<lambda>c. if c = x then y else c) s"
  by (induction s) simp_all

lemma replaceAll_delete: "replaceAll x [] s = filter (\<lambda>c. c \<noteq> x) s"
  by (induction s) simp_all

lemma flat_filename_spec:
  "flat_filename item =
     spec_filename (login (owner (repository item))) (repo_name (repository item)) (path item)"
  by (simp add: flat_filename_def spec_filename_def replaceAll_char)

lemma write_item_trace:
  "i < length its \<Longrightarrow>
   write_item dir its contents i w =
     w\<lparr>trace := trace w @ item_writes dir (its ! i) (at_index contents i)\<rparr>"
  by (simp add: write_item_def item_writes_def emit_def flat_filename_spec split: option.split)

lemma expected_writes_drop:
  assumes "i < length its"
  shows "expected_writes dir (drop i its) (drop i contents) =
           item_writes dir (its ! i) (at_index contents i)
           @ expected_writes dir (drop (Suc i) its) (drop (Suc i) contents)"
proof (cases "i < length contents")
  case True
  with assms show ?thesis
    by (simp add: expected_writes_def at_index_def Cons_nth_drop_Suc [symmetric])
next
  case False
  then show ?thesis
    by (simp add: expected_writes_def at_index_def item_writes_def)
qed

lemma write_loop_trace:
  "write_loop dir its contents i w =
     w\<lparr>trace := trace w @ expected_writes dir (drop i its) (drop i contents)\<rparr>"
proof (induction dir its contents i w rule: write_loop.induct)
  case (1 dir its contents i w)
  show ?case
  proof (cases "i < length its")
    case True
    then show ?thesis
      using "1.IH" [OF True]
      by (subst write_loop.simps) (simp add: write_item_trace expected_writes_drop)
  next
    case False
    then show ?thesis
      by (subst write_loop.simps) (simp add: expected_writes_def)
  qed
qed

lemma syncToOutdir_eq:
  "syncToOutdir dir its contents w =
     (Return (), w\<lparr>trace := trace w @ Mkdir dir # expected_writes dir its contents\<rparr>)"
  by (simp add: syncToOutdir_def write_loop_trace emit_def)

section \<open>The steps of syncSearchPage\<close>

lemmas example_defs =
  world0_def json_headers_def example_item_def example_search_def example_graphql_def
  example_env_def example_opts_def unauthorized_response_def rate_limited_response_def
  html_response_def

lemmas run_defs =
  syncSearchPage_def set_page_def page_or_1_def codeSearch_def retrieveObjectContents_def
  syncToOutdir_def errorFromGitHubResponse_def is_json_def await_def emit_def
  makeSearchURL_def new_URL_def searchParams_set_def searchParams_get_def
  fresh_key_def text_or_null_def write_loop.simps write_item_def at_index_def
  flat_filename_def Number_toString_def nat_toString.simps
  batch_request_def fragment_for_def key_at_def Let_def

lemmas example2_defs = example_item2_def example_env2_def example_query2_def

lemma codeSearch_Return:
  assumes "codeSearch e syncOpts w = (Return x, w1)"
  shows "w1 = emit (Fetch (GET (url syncOpts) (''Bearer '' @ ghToken syncOpts))) w
         \<and> (\<exists>response.
               search_api e (GET (url syncOpts) (''Bearer '' @ ghToken syncOpts)) = Some response
               \<and> is_json response
               \<and> (\<forall>body. x = Inr body \<longrightarrow>
                     json response = Some body \<and> status response \<noteq> 401 \<and> status response \<noteq> 403))"
  using assms
  by (auto simp: codeSearch_def Let_def await_def
      split: option.splits outcome.splits prod.splits
      dest!: errorFromGitHubResponse_Return)

lemma retrieveObjectContents_Inl:
  assumes "retrieveObjectContents e token its w = (Return (Inl err), w1)"
  shows "w1 = emit (Fetch (batch_request e token its w))
                (w\<lparr>uuids_drawn := uuids_drawn w + length its\<rparr>)"
  using assms
  by (auto simp: retrieveObjectContents_def build_parts_eq Let_def await_def batch_request_def
      split: option.splits outcome.splits prod.splits
      dest!: errorFromGitHubResponse_Return)

lemma set_page_url: "set_page syncOpts = syncOpts\<lparr>url := url (set_page syncOpts)\<rparr>"
  by (simp add: set_page_def split: option.split)

lemma set_page_fields:
  "ghToken (set_page syncOpts) = ghToken syncOpts"
  "outdir (set_page syncOpts) = outdir syncOpts"
  "page (set_page syncOpts) = page syncOpts"
  by (simp_all add: set_page_def split: option.split)

lemma syncSearchPage_url: "syncSearchPage e syncOpts w = (r, u, w') \<Longrightarrow> u = url (set_page syncOpts)"
  by (auto simp: syncSearchPage_def Let_def split: prod.splits)

lemma syncSearchPage_search_error:
  assumes "codeSearch e (set_page syncOpts) w = (Return (Inl err), w1)"
  shows "syncSearchPage e syncOpts w = (Return (Error err), url (set_page syncOpts), w1)"
  using assms by (simp add: syncSearchPage_def Let_def await_def)

lemma syncSearchPage_fetch_error:
  assumes "codeSearch e (set_page syncOpts) w = (Return (Inr sr), w1)"
    and "retrieveObjectContents e (ghToken syncOpts) (items sr) w1 = (Return (Inl err), w2)"
  shows "syncSearchPage e syncOpts w = (Return (Error err), url (set_page syncOpts), w2)"
  using assms by (simp add: syncSearchPage_def Let_def await_def set_page_fields)

lemma syncSearchPage_success:
  assumes "codeSearch e (set_page syncOpts) w = (Return (Inr sr), w1)"
    and "retrieveObjectContents e (ghToken syncOpts) (items sr) w1 = (Return (Inr contents), w2)"
  shows "syncSearchPage e syncOpts w =
     (Return (Success \<lparr>remaining = \<lceil>real_of_int (total_count sr) / 100\<rceil> - page_or_1 (page syncOpts),
                       total' = \<lceil>real_of_int (total_count sr) / 100\<rceil>\<rparr>),
      url (set_page syncOpts),
      w2\<lparr>trace := trace w2 @ Mkdir (outdir syncOpts) # expected_writes (outdir syncOpts) (items sr) contents\<rparr>)"
  using assms by (simp add: syncSearchPage_def Let_def await_def set_page_fields syncToOutdir_eq)

lemma syncSearchPage_Success_inv:
  assumes "syncSearchPage e syncOpts w = (Return (Success pg), u, w')"
  shows "\<exists>sr w1 contents w2.
           codeSearch e (set_page syncOpts) w = (Return (Inr sr), w1)
           \<and> retrieveObjectContents e (ghToken syncOpts) (items sr) w1 = (Return (Inr contents), w2)"
  using assms
  by (auto simp: syncSearchPage_def Let_def await_def set_page_fields syncToOutdir_eq
      split: prod.splits outcome.splits sum.splits)


lemma errorFromGitHubResponse_not_json:
  "\<not> is_json r \<Longrightarrow>
   errorFromGitHubResponse r w =
     (Exit 1, emit (ConsoleLog ''search/code'' (status r) (headers r ''content-type'')) w)"
  by (simp add: errorFromGitHubResponse_def)

lemma errorFromGitHubResponse_trace:
  "\<exists>evs. trace (snd (errorFromGitHubResponse r w)) = trace w @ evs"
  by (simp add: errorFromGitHubResponse_def emit_def Let_def)

lemma codeSearch_trace:
  "\<exists>evs. trace (snd (codeSearch e syncOpts w)) =
           trace w @ Fetch (GET (url syncOpts) (''Bearer '' @ ghToken syncOpts)) # evs"
proof (cases "search_api e (GET (url syncOpts) (''Bearer '' @ ghToken syncOpts))")
  case None
  then show ?thesis by (simp add: codeSearch_def Let_def emit_def)
next
  case (Some response)
  then show ?thesis
    by (cases "is_json response")
      (auto simp: codeSearch_def Let_def emit_def await_def errorFromGitHubResponse_def
        split: option.splits)
qed

lemma retrieveObjectContents_trace:
  "\<exists>evs. trace (snd (retrieveObjectContents e token its w)) =
           trace w @ Fetch (batch_request e token its w) # evs"
proof (cases "graphql_api e (batch_request e token its w)")
  case None
  then show ?thesis
    by (simp add: retrieveObjectContents_def build_parts_eq Let_def emit_def batch_request_def)
next
  case (Some response)
  then show ?thesis
    by (cases "is_json response")
      (auto simp: retrieveObjectContents_def build_parts_eq Let_def emit_def await_def
        errorFromGitHubResponse_def batch_request_def
        split: option.splits outcome.splits)
qed

lemma await_trace:
  assumes "\<exists>evs. trace (snd m) = trace w @ e # evs"
    and "\<And>x w1. \<exists>evs. trace (snd (k x w1)) = trace w1 @ evs"
  shows "\<exists>evs. trace (snd (await m k)) = trace w @ e # evs"
proof (cases m)
  case (Pair r w1)
  from assms(1) Pair obtain evs where evs: "trace w1 = trace w @ e # evs" by auto
  show ?thesis
  proof (cases r)
    case (Return x)
    from assms(2) [of x w1] obtain evs' where "trace (snd (k x w1)) = trace w1 @ evs'" by blast
    with evs Pair Return show ?thesis by (simp add: await_def)
  next
    case (Throw x)
    with evs Pair show ?thesis by (simp add: await_def)
  next
    case (Exit c)
    with evs Pair show ?thesis by (simp add: await_def)
  qed
qed

lemma after_search_trace:
  "\<exists>evs. trace (snd
     (case searchResponse of
        Inl err \<Rightarrow> (Return (Error err), w1)
      | Inr sr \<Rightarrow>
          await (retrieveObjectContents e token (items sr) w1)
            (\<lambda>contents w.
               case contents of
                 Inl err \<Rightarrow> (Return (Error err), w)
               | Inr contents \<Rightarrow> await (syncToOutdir dir (items sr) contents w) (k sr)))) =
     trace w1 @ evs"
  if "\<And>sr u w. \<exists>evs. trace (snd (k sr u w)) = trace w @ evs"
proof (cases searchResponse)
  case (Inl err)
  then show ?thesis by simp
next
  case (Inr sr)
  have "\<exists>evs. trace (snd (await (retrieveObjectContents e token (items sr) w1)
            (\<lambda>contents w.
               case contents of
                 Inl err \<Rightarrow> (Return (Error err), w)
               | Inr contents \<Rightarrow> await (syncToOutdir dir (items sr) contents w) (k sr)))) =
     trace w1 @ Fetch (batch_request e token (items sr) w1) # evs"
  proof (rule await_trace [OF retrieveObjectContents_trace])
    fix x w2
    show "\<exists>evs. trace (snd (case x of Inl err \<Rightarrow> (Return (Error err), w2)
              | Inr contents \<Rightarrow> await (syncToOutdir dir (items sr) contents w2) (k sr))) =
           trace w2 @ evs"
    proof (cases x)
      case (Inl err)
      then show ?thesis by simp
    next
      case (Inr contents)
      from that [of sr "()" "w2\<lparr>trace := trace w2 @ Mkdir dir # expected_writes dir (items sr) contents\<rparr>"]
      show ?thesis by (auto simp: Inr syncToOutdir_eq await_def)
    qed
  qed
  with Inr show ?thesis by auto
qed

lemma syncSearchPage_trace:
  "\<exists>evs. trace (snd (snd (syncSearchPage e syncOpts w))) =
           trace w @ Fetch (GET (url (set_page syncOpts)) (''Bearer '' @ ghToken syncOpts)) # evs"
proof -
  let ?k = "\<lambda>searchResponse w.
              case searchResponse of
                Inl err \<Rightarrow> (Return (Error err), w)
              | Inr searchResponse \<Rightarrow>
                  await (retrieveObjectContents e (ghToken (set_page syncOpts)) (items searchResponse) w)
                    (\<lambda>contents w.
                      case contents of
                        Inl err \<Rightarrow> (Return (Error err), w)
                      | Inr contents \<Rightarrow>
                          await (syncToOutdir (outdir (set_page syncOpts)) (items searchResponse) contents w)
                            (\<lambda>u w.
                              let pageCount = \<lceil>real_of_int (total_count searchResponse) / 100\<rceil>
                              in (Return (Success
                                    \<lparr>remaining = pageCount - page_or_1 (page (set_page syncOpts)),
                                     total' = pageCount\<rparr>), w)))"
  have "\<exists>evs. trace (snd (await (codeSearch e (set_page syncOpts) w) ?k)) =
          trace w @ Fetch (GET (url (set_page syncOpts)) (''Bearer '' @ ghToken (set_page syncOpts))) # evs"
    by (rule await_trace [OF codeSearch_trace], rule after_search_trace) (simp add: Let_def)
  then show ?thesis
    by (auto simp: syncSearchPage_def Let_def set_page_fields split: prod.splits)
qed

section \<open>Parsing what was printed\<close>

lemma digit_value_nth: "k < 10 \<Longrightarrow> digit_value (''0123456789'' ! k) = Some k"
proof -
  assume "k < 10"
  then have "k \<in> {0, 1, 2, 3, 4, 5, 6, 7, 8, 9}" by auto
  then show ?thesis by (auto simp: digit_value_def)
qed

lemma read_digits_snoc:
  "\<forall>c \<in> set s. digit_value c \<noteq> None \<Longrightarrow>
   read_digits (s @ t) acc = read_digits t (read_digits s acc)"
  by (induction s arbitrary: acc) (auto split: option.splits)

lemma nat_toString_digits: "\<forall>c \<in> set (nat_toString n). digit_value c \<noteq> None"
proof (induction n rule: nat_toString.induct)
  case (1 n)
  show ?case
  proof (cases "n < 10")
    case True
    then show ?thesis by (subst nat_toString.simps) (simp add: digit_value_nth)
  next
    case False
    with 1 show ?thesis by (subst nat_toString.simps) (simp add: digit_value_nth)
  qed
qed

lemma read_digits_nat_toString: "read_digits (nat_toString n) None = Some n"
proof (induction n rule: nat_toString.induct)
  case (1 n)
  show ?case
  proof (cases "n < 10")
    case True
    then show ?thesis by (subst nat_toString.simps) (simp add: digit_value_nth)
  next
    case False
    with 1 have "read_digits (nat_toString (n div 10)) None = Some (n div 10)" by simp
    with False show ?thesis
      by (subst nat_toString.simps)
        (simp add: read_digits_snoc [OF nat_toString_digits] digit_value_nth)
  qed
qed

lemma nat_toString_Cons: "\<exists>c s. nat_toString n = c # s \<and> digit_value c \<noteq> None"
proof -
  have "nat_toString n \<noteq> []" by (subst nat_toString.simps) simp
  then obtain c s where "nat_toString n = c # s" by (cases "nat_toString n") auto
  moreover from this nat_toString_digits [of n] have "digit_value c \<noteq> None" by simp
  ultimately show ?thesis by blast
qed

lemma digit_not_space_or_sign:
  "digit_value c \<noteq> None \<Longrightarrow> \<not> isWhiteSpace c \<and> c \<noteq> CHR ''-'' \<and> c \<noteq> CHR ''+''"
  by (auto simp: digit_value_def isWhiteSpace_def split: if_splits)

lemma parseInt_nat_toString: "parseInt (nat_toString n) = Some (int n)"
proof -
  from nat_toString_Cons [of n] obtain c s where cs: "nat_toString n = c # s"
    and d: "digit_value c \<noteq> None" by blast
  from digit_not_space_or_sign [OF d] have "read_sign (dropWhile isWhiteSpace (c # s)) = (1, c # s)"
    by simp
  with cs read_digits_nat_toString [of n] show ?thesis by (simp add: parseInt_def)
qed

section \<open>The page parameter\<close>

lemma params_set_same: "map_of (params_set n v ps) n = Some v"
  by (induction n v ps rule: params_set.induct) simp_all

lemma map_of_filter_other: "k \<noteq> n \<Longrightarrow> map_of (filter (\<lambda>p. fst p \<noteq> n) ps) k = map_of ps k"
  by (induction ps) auto

lemma params_set_other: "k \<noteq> n \<Longrightarrow> map_of (params_set n v ps) k = map_of ps k"
  by (induction n v ps rule: params_set.induct) (simp_all add: map_of_filter_other)

lemma syncSearchPage_Success_fields:
  assumes "syncSearchPage e syncOpts w = (Return (Success pg), u, w')"
  shows "\<exists>response body.
           search_api e (GET u (''Bearer '' @ ghToken syncOpts)) = Some response
           \<and> json response = Some body
           \<and> pg = \<lparr>remaining = \<lceil>real_of_int (total_count body) / 100\<rceil> - page_or_1 (page syncOpts),
                    total' = \<lceil>real_of_int (total_count body) / 100\<rceil>\<rparr>"
proof -
  from assms have u: "u = url (set_page syncOpts)" by (rule syncSearchPage_url)
  from syncSearchPage_Success_inv [OF assms] obtain sr w1 contents w2 where
    cs: "codeSearch e (set_page syncOpts) w = (Return (Inr sr), w1)" and
    ro: "retrieveObjectContents e (ghToken syncOpts) (items sr) w1 = (Return (Inr contents), w2)"
    by blast
  from codeSearch_Return [OF cs] obtain response where
    "search_api e (GET u (''Bearer '' @ ghToken syncOpts)) = Some response"
    "json response = Some sr"
    by (auto simp: u set_page_fields)
  moreover from syncSearchPage_success [OF cs ro] assms
  have "pg = \<lparr>remaining = \<lceil>real_of_int (total_count sr) / 100\<rceil> - page_or_1 (page syncOpts),
               total' = \<lceil>real_of_int (total_count sr) / 100\<rceil>\<rparr>"
    by simp
  ultimately show ?thesis by blast
qed

lemma ceiling_hundredth:
  "100 * (\<lceil>real_of_int n / 100\<rceil> - 1) < n \<and> n \<le> 100 * \<lceil>real_of_int n / 100\<rceil>"
proof -
  have "\<lceil>real_of_int n / 100\<rceil> = - (- n div 100)"
    using ceiling_divide_eq_div [of n 100, where ?'a = real] by simp
  moreover have "100 * (- (- n div 100) - 1) < n \<and> n \<le> 100 * (- (- n div 100))"
    by presburger
  ultimately show ?thesis by simp
qed

lemma pair3: "x = (fst x, fst (snd x), snd (snd x))"
  by simp

section \<open>Short circuit on the first error\<close>

text \<open>
  C1. When the search step returns an error result, \<open>syncSearchPage\<close> returns exactly that
  error, and the world after the call is the world right after the search: the only event
  added is the search request, and no UUID is drawn. So neither the content fetcher (which
  always sends its request, \<open>retrieveObjectContents_trace\<close>) nor the writer (which always
  creates the directory, \<open>syncToOutdir_eq\<close>) has run. When the search succeeds and the
  content fetcher returns an error result, \<open>syncSearchPage\<close> returns exactly that error,
  and the events added are the two requests only: the writer has not run.
\<close>

theorem syncSearchPage_short_circuits:
  assumes "syncSearchPage e syncOpts w = (r, u, w')"
  shows "(codeSearch e (syncOpts\<lparr>url := u\<rparr>) w = (Return (Inl err), w1) \<longrightarrow>
            r = Return (Error err) \<and> w' = w1
            \<and> trace w' = trace w @ [Fetch (GET u (''Bearer '' @ ghToken syncOpts))]
            \<and> uuids_drawn w' = uuids_drawn w)
       \<and> (codeSearch e (syncOpts\<lparr>url := u\<rparr>) w = (Return (Inr sr), w2)
            \<and> retrieveObjectContents e (ghToken syncOpts) (items sr) w2 = (Return (Inl err'), w3) \<longrightarrow>
            r = Return (Error err') \<and> w' = w3
            \<and> trace w' = trace w @ [Fetch (GET u (''Bearer '' @ ghToken syncOpts)),
                                     Fetch (batch_request e (ghToken syncOpts) (items sr) w2)])"
proof -
  from assms have u: "u = url (set_page syncOpts)" by (rule syncSearchPage_url)
  then have sp: "syncOpts\<lparr>url := u\<rparr> = set_page syncOpts" using set_page_url [of syncOpts] by simp
  have first: "r = Return (Error err) \<and> w' = w1
      \<and> trace w' = trace w @ [Fetch (GET u (''Bearer '' @ ghToken syncOpts))]
      \<and> uuids_drawn w' = uuids_drawn w"
    if cs: "codeSearch e (syncOpts\<lparr>url := u\<rparr>) w = (Return (Inl err), w1)"
  proof -
    from cs sp have cs': "codeSearch e (set_page syncOpts) w = (Return (Inl err), w1)" by simp
    from syncSearchPage_search_error [OF cs'] assms have "r = Return (Error err)" "w' = w1" by simp_all
    moreover from codeSearch_Return [OF cs']
    have "w1 = emit (Fetch (GET u (''Bearer '' @ ghToken syncOpts))) w"
      by (simp add: u set_page_fields)
    ultimately show ?thesis by (simp add: emit_def)
  qed
  have second: "r = Return (Error err') \<and> w' = w3
      \<and> trace w' = trace w @ [Fetch (GET u (''Bearer '' @ ghToken syncOpts)),
                               Fetch (batch_request e (ghToken syncOpts) (items sr) w2)]"
    if cs: "codeSearch e (syncOpts\<lparr>url := u\<rparr>) w = (Return (Inr sr), w2)"
      and ro: "retrieveObjectContents e (ghToken syncOpts) (items sr) w2 = (Return (Inl err'), w3)"
  proof -
    from cs sp have cs': "codeSearch e (set_page syncOpts) w = (Return (Inr sr), w2)" by simp
    from syncSearchPage_fetch_error [OF cs' ro] assms have "r = Return (Error err')" "w' = w3"
      by simp_all
    moreover from codeSearch_Return [OF cs']
    have "w2 = emit (Fetch (GET u (''Bearer '' @ ghToken syncOpts))) w"
      by (simp add: u set_page_fields)
    moreover note retrieveObjectContents_Inl [OF ro]
    ultimately show ?thesis by (simp add: emit_def)
  qed
  from first second show ?thesis by blast
qed

theorem syncSearchPage_short_circuits_witness:
  "fst (syncSearchPage (example_env\<lparr>search_api := \<lambda>req. Some unauthorized_response\<rparr>)
          example_opts world0) = Return (Error Unauthorized)
   \<and> trace (snd (snd (syncSearchPage (example_env\<lparr>search_api := \<lambda>req. Some unauthorized_response\<rparr>)
          example_opts world0))) = [Fetch (GET (url example_opts) ''Bearer t'')]
   \<and> fst (syncSearchPage (example_env\<lparr>graphql_api := \<lambda>req. Some (rate_limited_response None)\<rparr>)
          example_opts world0) = Return (Error (RateLimited None))
   \<and> trace (snd (snd (syncSearchPage (example_env\<lparr>graphql_api := \<lambda>req. Some (rate_limited_response None)\<rparr>)
          example_opts world0))) =
       [Fetch (GET (url example_opts) ''Bearer t''),
        Fetch (batch_request example_env ''t'' [example_item] world0)]"
proof -
  let ?eA = "example_env\<lparr>search_api := \<lambda>req. Some unauthorized_response\<rparr>"
  let ?eB = "example_env\<lparr>graphql_api := \<lambda>req. Some (rate_limited_response None)\<rparr>"
  let ?w1 = "\<lparr>trace = [Fetch (GET (url example_opts) ''Bearer t'')], uuids_drawn = 0\<rparr>"
  have uA: "fst (snd (syncSearchPage ?eA example_opts world0)) = url example_opts"
    by (simp add: syncSearchPage_def set_page_def example_opts_def Let_def split: prod.splits)
  have uB: "fst (snd (syncSearchPage ?eB example_opts world0)) = url example_opts"
    by (simp add: syncSearchPage_def set_page_def example_opts_def Let_def split: prod.splits)
  have csA: "codeSearch ?eA (example_opts\<lparr>url := fst (snd (syncSearchPage ?eA example_opts world0))\<rparr>)
      world0 = (Return (Inl Unauthorized), ?w1)"
    unfolding uA by (simp add: example_defs run_defs)
  have csB: "codeSearch ?eB (example_opts\<lparr>url := fst (snd (syncSearchPage ?eB example_opts world0))\<rparr>)
      world0 = (Return (Inr \<lparr>total_count = 250, incomplete_results = False, items = [example_item]\<rparr>), ?w1)"
    unfolding uB by (simp add: example_defs run_defs)
  have roB: "retrieveObjectContents ?eB (ghToken example_opts)
      (items \<lparr>total_count = 250, incomplete_results = False, items = [example_item]\<rparr>) ?w1 =
      (Return (Inl (RateLimited None)),
       \<lparr>trace = [Fetch (GET (url example_opts) ''Bearer t''),
                 Fetch (batch_request example_env ''t'' [example_item] world0)],
        uuids_drawn = 1\<rparr>)"
    by (simp add: example_defs run_defs)
  from syncSearchPage_short_circuits [OF pair3, THEN conjunct1, THEN mp, OF csA]
    syncSearchPage_short_circuits [OF pair3, THEN conjunct2, THEN mp, OF conjI [OF csB roB]]
  show ?thesis by simp
qed

section \<open>Page counts\<close>

text \<open>
  C3, as amended. For every successful page sync, the returned total is
  \<open>ceil(total_count / 100)\<close> for the count of the search response (so it is the least
  number of pages of 100 that hold the count), and the returned remaining count is that
  total minus the current page, where the current page is 1 when no page is given and also
  when the page given is 0.
\<close>

theorem syncSearchPage_page_counts:
  assumes "syncSearchPage e syncOpts w = (Return (Success pg), u, w')"
  shows "\<exists>response body.
           search_api e (GET u (''Bearer '' @ ghToken syncOpts)) = Some response
           \<and> json response = Some body
           \<and> total' pg = \<lceil>real_of_int (total_count body) / 100\<rceil>
           \<and> remaining pg =
               total' pg - (case page syncOpts of None \<Rightarrow> 1 | Some n \<Rightarrow> if n = 0 then 1 else n)
           \<and> 100 * (total' pg - 1) < total_count body \<and> total_count body \<le> 100 * total' pg"
proof -
  from syncSearchPage_Success_fields [OF assms] obtain response body where
    resp: "search_api e (GET u (''Bearer '' @ ghToken syncOpts)) = Some response"
      "json response = Some body" and
    pg: "pg = \<lparr>remaining = \<lceil>real_of_int (total_count body) / 100\<rceil> - page_or_1 (page syncOpts),
                 total' = \<lceil>real_of_int (total_count body) / 100\<rceil>\<rparr>"
    by blast
  have "remaining pg =
      total' pg - (case page syncOpts of None \<Rightarrow> 1 | Some n \<Rightarrow> if n = 0 then 1 else n)"
    by (simp add: pg page_or_1_def split: option.split)
  moreover have "100 * (total' pg - 1) < total_count body \<and> total_count body \<le> 100 * total' pg"
    using ceiling_hundredth [of "total_count body"] by (simp add: pg)
  ultimately show ?thesis using resp pg by auto
qed

theorem syncSearchPage_page_counts_witness:
  "fst (syncSearchPage example_env (example_opts\<lparr>page := Some 2\<rparr>) world0) =
     Return (Success \<lparr>remaining = 1, total' = 3\<rparr>)
   \<and> (\<exists>response body.
         search_api example_env
           (GET (fst (snd (syncSearchPage example_env (example_opts\<lparr>page := Some 2\<rparr>) world0)))
              ''Bearer t'') = Some response
         \<and> json response = Some body \<and> total_count body = 250
         \<and> \<lceil>real_of_int (total_count body) / 100\<rceil> = 3)"
proof -
  let ?run = "syncSearchPage example_env (example_opts\<lparr>page := Some 2\<rparr>) world0"
  have r: "fst ?run = Return (Success \<lparr>remaining = 1, total' = 3\<rparr>)"
    by (simp add: example_defs run_defs)
  then have run: "?run = (Return (Success \<lparr>remaining = 1, total' = 3\<rparr>), fst (snd ?run), snd (snd ?run))"
    by (metis prod.collapse)
  from syncSearchPage_page_counts [OF run] r show ?thesis
    by (auto simp: example_env_def example_search_def example_opts_def)
qed

text \<open>
  C3 as it is stated fails for the page number 0: with 250 results the total is 3, and the
  remaining count is 2, not \<open>3 - 0\<close>.
\<close>

theorem syncSearchPage_page_zero_counterexample:
  "page (example_opts\<lparr>page := Some 0\<rparr>) = Some 0
   \<and> fst (syncSearchPage example_env (example_opts\<lparr>page := Some 0\<rparr>) world0) =
       Return (Success \<lparr>remaining = 2, total' = 3\<rparr>)
   \<and> (2 :: int) \<noteq> 3 - 0"
  by (simp add: example_defs run_defs)

section \<open>Classification of responses\<close>

text \<open>
  C4, as amended. For a response with a JSON content type: status 401 gives the
  \<open>unauthorized\<close> error; status 403 gives the \<open>rate-limited\<close> error, whose reset is
  the date at 1000 times the integer that \<open>parseInt\<close> reads from the
  \<open>x-ratelimit-reset\<close> header when that header is present and not empty (for a header
  that is the decimal numeral of a number of seconds within the range of dates, the date
  that many seconds after the epoch), and \<open>null\<close> when the header is absent or empty;
  any other status gives no error, and the search then returns the parsed body.
\<close>

theorem errorFromGitHubResponse_classifies:
  assumes "is_json r"
  shows "(status r = 401 \<longrightarrow> errorFromGitHubResponse r w = (Return (Some Unauthorized), w))
       \<and> (status r = 403 \<and> headers r ''x-ratelimit-reset'' = Some h \<and> h \<noteq> [] \<longrightarrow>
            errorFromGitHubResponse r w =
              (Return (Some (RateLimited
                 (Some (new_Date (map_option (\<lambda>seconds. seconds * 1000) (parseInt h)))))), w))
       \<and> (status r = 403 \<and> headers r ''x-ratelimit-reset'' = Some (nat_toString secs)
            \<and> secs \<le> 8640000000000 \<longrightarrow>
            errorFromGitHubResponse r w =
              (Return (Some (RateLimited (Some (Time (int secs * 1000))))), w))
       \<and> (status r = 403
            \<and> (headers r ''x-ratelimit-reset'' = None \<or> headers r ''x-ratelimit-reset'' = Some []) \<longrightarrow>
            errorFromGitHubResponse r w = (Return (Some (RateLimited None)), w))
       \<and> (status r \<noteq> 401 \<and> status r \<noteq> 403 \<longrightarrow> errorFromGitHubResponse r w = (Return None, w))
       \<and> (search_api e (GET (url syncOpts) (''Bearer '' @ ghToken syncOpts)) = Some response
            \<and> is_json response \<and> status response \<noteq> 401 \<and> status response \<noteq> 403
            \<and> json response = Some body \<longrightarrow>
            fst (codeSearch e syncOpts w) = Return (Inr body))"
proof -
  have nonempty: "nat_toString secs \<noteq> []"
    using nat_toString_Cons [of secs] by auto
  have "secs \<le> 8640000000000 \<Longrightarrow>
      new_Date (map_option (\<lambda>seconds. seconds * 1000) (parseInt (nat_toString secs))) =
      Time (int secs * 1000)"
    by (simp add: parseInt_nat_toString new_Date_def)
  with assms nonempty show ?thesis
    by (auto simp: errorFromGitHubResponse_def codeSearch_def Let_def await_def)
qed

theorem errorFromGitHubResponse_classifies_witness:
  "is_json (rate_limited_response (Some ''1700000000'') :: unit Response)
   \<and> errorFromGitHubResponse (rate_limited_response (Some ''1700000000'') :: unit Response) world0 =
       (Return (Some (RateLimited (Some (Time 1700000000000)))), world0)
   \<and> errorFromGitHubResponse (rate_limited_response None :: unit Response) world0 =
       (Return (Some (RateLimited None)), world0)
   \<and> errorFromGitHubResponse (unauthorized_response :: unit Response) world0 =
       (Return (Some Unauthorized), world0)
   \<and> errorFromGitHubResponse example_search world0 = (Return None, world0)
   \<and> fst (codeSearch example_env example_opts world0) =
       Return (Inr \<lparr>total_count = 250, incomplete_results = False, items = [example_item]\<rparr>)"
proof -
  have j1: "is_json (rate_limited_response (Some ''1700000000'') :: unit Response)"
    and j2: "is_json (rate_limited_response None :: unit Response)"
    and j3: "is_json (unauthorized_response :: unit Response)"
    and j4: "is_json example_search"
    by (simp_all add: example_defs is_json_def)
  have p: "parseInt ''1700000000'' = Some 1700000000"
    by (simp add: parseInt_def isWhiteSpace_def digit_value_def)
  from errorFromGitHubResponse_classifies [OF j1, of world0 "''1700000000''", THEN conjunct2, THEN conjunct1]
  have a: "errorFromGitHubResponse (rate_limited_response (Some ''1700000000'') :: unit Response) world0 =
       (Return (Some (RateLimited (Some (Time 1700000000000)))), world0)"
    by (simp add: rate_limited_response_def p new_Date_def)
  from errorFromGitHubResponse_classifies [OF j2, of world0]
  have b: "errorFromGitHubResponse (rate_limited_response None :: unit Response) world0 =
       (Return (Some (RateLimited None)), world0)"
    by (simp add: rate_limited_response_def)
  from errorFromGitHubResponse_classifies [OF j3, of world0]
  have c: "errorFromGitHubResponse (unauthorized_response :: unit Response) world0 =
       (Return (Some Unauthorized), world0)"
    by (simp add: unauthorized_response_def)
  from errorFromGitHubResponse_classifies [OF j4, of world0 _ _ example_env example_opts example_search
      "\<lparr>total_count = 250, incomplete_results = False, items = [example_item]\<rparr>"]
  have d: "errorFromGitHubResponse example_search world0 = (Return None, world0)"
    and e: "fst (codeSearch example_env example_opts world0) =
       Return (Inr \<lparr>total_count = 250, incomplete_results = False, items = [example_item]\<rparr>)"
    using j4 by (simp_all add: example_search_def example_env_def)
  from j1 a b c d e show ?thesis by simp
qed

text \<open>
  C4 as it is stated fails for a header that is present with an empty value: the reset is
  \<open>null\<close>, not a date.
\<close>

theorem empty_reset_header_counterexample:
  "is_json (rate_limited_response (Some []) :: unit Response)
   \<and> status (rate_limited_response (Some []) :: unit Response) = 403
   \<and> headers (rate_limited_response (Some []) :: unit Response) ''x-ratelimit-reset'' = Some []
   \<and> errorFromGitHubResponse (rate_limited_response (Some []) :: unit Response) world0 =
       (Return (Some (RateLimited None)), world0)"
  by (simp add: example_defs is_json_def errorFromGitHubResponse_def)

section \<open>Files written\<close>

lemma text_or_null_nonempty: "text_or_null node \<noteq> Some []"
  by (simp add: text_or_null_def split: option.split)

lemma read_contents_nonempty:
  "read_contents body keys acc = Return cs \<Longrightarrow> Some [] \<notin> set acc \<Longrightarrow> Some [] \<notin> set cs"
proof (induction keys arbitrary: acc)
  case Nil
  then show ?case by simp
next
  case (Cons key keys)
  from Cons.prems(1) obtain node where
    "read_contents body keys (acc @ [text_or_null node]) = Return cs"
    by (auto split: option.splits)
  moreover from Cons.prems(2) text_or_null_nonempty [of node]
  have "Some [] \<notin> set (acc @ [text_or_null node])" by auto
  ultimately show ?case by (rule Cons.IH)
qed

lemma retrieveObjectContents_nonempty:
  assumes "retrieveObjectContents e token its w = (Return (Inr contents), w')"
  shows "length contents = length its \<and> Some [] \<notin> set contents"
proof -
  from retrieveObjectContents_Inr [OF assms] obtain body where
    rc: "read_contents body (map (key_at e w) [0..<length its]) [] = Return contents"
    by blast
  from read_contents_Return [OF rc] have "length contents = length its" by auto
  moreover from read_contents_nonempty [OF rc] have "Some [] \<notin> set contents" by simp
  ultimately show ?thesis by simp
qed

lemma expected_writes_spec:
  "Some [] \<notin> set contents \<Longrightarrow> expected_writes dir its contents = spec_writes dir its contents"
proof (induction its arbitrary: contents)
  case Nil
  show ?case by (simp add: expected_writes_def spec_writes_def)
next
  case (Cons item its)
  show ?case
  proof (cases contents)
    case Nil
    then show ?thesis by (simp add: expected_writes_def spec_writes_def)
  next
    case (Cons c cs)
    with Cons.prems have "Some [] \<notin> set cs" "c \<noteq> Some []" by auto
    with Cons.IH [of cs] Cons show ?thesis
      by (auto simp: expected_writes_def spec_writes_def item_writes_def spec_item_writes_def
          split: option.splits)
  qed
qed

text \<open>
  C5. The writer is called in one place only, by \<open>syncSearchPage\<close> with the list the
  content fetcher returned: a list as long as the item list, in which no content is the
  empty string. For every such pair the writer creates the directory and then writes, in
  item order, one file for each item whose content is not \<open>null\<close>: the file named
  owner, repository name and path with every slash replaced by an underscore, joined by
  underscores, inside the output directory, holding exactly the content; it writes no file
  for an item whose content is \<open>null\<close>. The same is said of the call inside
  \<open>syncSearchPage\<close>. For owner \<open>o\<close>, repository \<open>r\<close>, path \<open>a/b/c.sql\<close> and a
  content the writer can receive, the file is \<open>o_r_a_b_c.sql\<close> with that content.
\<close>

theorem syncToOutdir_writes:
  "(retrieveObjectContents e token its w0 = (Return (Inr contents), w1) \<longrightarrow>
      length contents = length its \<and> Some [] \<notin> set contents)
   \<and> (length its = length contents \<and> Some [] \<notin> set contents \<longrightarrow>
      syncToOutdir dir its contents w =
        (Return (), w\<lparr>trace := trace w @ Mkdir dir # spec_writes dir its contents\<rparr>))
   \<and> (codeSearch e (set_page syncOpts) w = (Return (Inr sr), w2)
        \<and> retrieveObjectContents e (ghToken syncOpts) (items sr) w2 = (Return (Inr cs), w3) \<longrightarrow>
      snd (snd (syncSearchPage e syncOpts w)) =
        w3\<lparr>trace := trace w3 @ Mkdir (outdir syncOpts) # spec_writes (outdir syncOpts) (items sr) cs\<rparr>)
   \<and> (c \<noteq> [] \<and> login (owner (repository item)) = ''o'' \<and> repo_name (repository item) = ''r''
        \<and> path item = ''a/b/c.sql'' \<longrightarrow>
      syncToOutdir dir [item] [Some c] w =
        (Return (), w\<lparr>trace := trace w @ [Mkdir dir, WriteFile dir ''o_r_a_b_c.sql'' c]\<rparr>))"
proof -
  have a: "length contents = length its \<and> Some [] \<notin> set contents"
    if "retrieveObjectContents e token its w0 = (Return (Inr contents), w1)"
    using that by (rule retrieveObjectContents_nonempty)
  have b: "syncToOutdir dir its contents w =
        (Return (), w\<lparr>trace := trace w @ Mkdir dir # spec_writes dir its contents\<rparr>)"
    if "Some [] \<notin> set contents"
    using that by (simp add: syncToOutdir_eq expected_writes_spec)
  have c: "snd (snd (syncSearchPage e syncOpts w)) =
        w3\<lparr>trace := trace w3 @ Mkdir (outdir syncOpts) # spec_writes (outdir syncOpts) (items sr) cs\<rparr>"
    if cs: "codeSearch e (set_page syncOpts) w = (Return (Inr sr), w2)"
      and ro: "retrieveObjectContents e (ghToken syncOpts) (items sr) w2 = (Return (Inr cs), w3)"
  proof -
    from retrieveObjectContents_nonempty [OF ro] have "Some [] \<notin> set cs" by simp
    with syncSearchPage_success [OF cs ro] show ?thesis by (simp add: expected_writes_spec)
  qed
  have d: "syncToOutdir dir [item] [Some c] w =
        (Return (), w\<lparr>trace := trace w @ [Mkdir dir, WriteFile dir ''o_r_a_b_c.sql'' c]\<rparr>)"
    if "c \<noteq> []" "login (owner (repository item)) = ''o''" "repo_name (repository item) = ''r''"
      "path item = ''a/b/c.sql''"
    using that
    by (simp add: syncToOutdir_eq expected_writes_def item_writes_def spec_filename_def)
  from a b c d show ?thesis by blast
qed

theorem syncToOutdir_writes_witness:
  "retrieveObjectContents example_env2 ''t'' [example_item, example_item2] world0 =
     (Return (Inr [Some ''X'', None]),
      \<lparr>trace = [Fetch (POST ''https://api.github.com/graphql'' ''Bearer t'' example_query2)],
       uuids_drawn = 2\<rparr>)
   \<and> syncToOutdir ''out'' [example_item, example_item2] [Some ''X'', None] world0 =
     (Return (), \<lparr>trace = [Mkdir ''out'', WriteFile ''out'' ''o_r_a_b_c.sql'' ''X''], uuids_drawn = 0\<rparr>)
   \<and> syncToOutdir ''out'' [example_item, example_item2] [Some ''X'', Some ''Y''] world0 =
     (Return (), \<lparr>trace = [Mkdir ''out'', WriteFile ''out'' ''o_r_a_b_c.sql'' ''X'',
                             WriteFile ''out'' ''p_s_x_y.cql'' ''Y''], uuids_drawn = 0\<rparr>)
   \<and> trace (snd (snd (syncSearchPage example_env2 example_opts world0))) =
       [Fetch (GET (url example_opts) ''Bearer t''),
        Fetch (POST ''https://api.github.com/graphql'' ''Bearer t'' example_query2),
        Mkdir ''out'', WriteFile ''out'' ''o_r_a_b_c.sql'' ''X'']"
proof -
  let ?its = "[example_item, example_item2]"
  let ?sr = "\<lparr>total_count = 250, incomplete_results = False, items = ?its\<rparr>"
  let ?w2 = "\<lparr>trace = [Fetch (GET (url example_opts) ''Bearer t'')], uuids_drawn = 0\<rparr>"
  let ?w3 = "\<lparr>trace = [Fetch (GET (url example_opts) ''Bearer t''),
                        Fetch (POST ''https://api.github.com/graphql'' ''Bearer t'' example_query2)],
              uuids_drawn = 2\<rparr>"
  have run: "retrieveObjectContents example_env2 ''t'' ?its world0 =
     (Return (Inr [Some ''X'', None]),
      \<lparr>trace = [Fetch (POST ''https://api.github.com/graphql'' ''Bearer t'' example_query2)],
       uuids_drawn = 2\<rparr>)"
    by (simp add: example_defs example2_defs run_defs graphQueryForObjectText_def dquote_def)
  have cs: "codeSearch example_env2 (set_page example_opts) world0 = (Return (Inr ?sr), ?w2)"
    by (simp add: example_defs example2_defs run_defs)
  have ro: "retrieveObjectContents example_env2 (ghToken example_opts) (items ?sr) ?w2 =
      (Return (Inr [Some ''X'', None]), ?w3)"
    by (simp add: example_defs example2_defs run_defs graphQueryForObjectText_def dquote_def)
  note inst = syncToOutdir_writes [where e = example_env2 and syncOpts = example_opts and w = world0
      and dir = "''out''"]
  from inst [where its = ?its and contents = "[Some ''X'', None]" and token = "''t''"
      and ?w0.0 = world0, THEN conjunct1] run
  have reach: "length ?its = length [Some ''X'', None]" "Some [] \<notin> set [Some ''X'', None :: string option]"
    by simp_all
  from inst [where its = ?its and contents = "[Some ''X'', None]", THEN conjunct2, THEN conjunct1] reach
  have a: "syncToOutdir ''out'' ?its [Some ''X'', None] world0 =
     (Return (), \<lparr>trace = [Mkdir ''out'', WriteFile ''out'' ''o_r_a_b_c.sql'' ''X''], uuids_drawn = 0\<rparr>)"
    by (simp add: example_defs example2_defs spec_writes_def spec_item_writes_def spec_filename_def)
  from inst [where its = ?its and contents = "[Some ''X'', Some ''Y'']", THEN conjunct2, THEN conjunct1]
  have b: "syncToOutdir ''out'' ?its [Some ''X'', Some ''Y''] world0 =
     (Return (), \<lparr>trace = [Mkdir ''out'', WriteFile ''out'' ''o_r_a_b_c.sql'' ''X'',
                             WriteFile ''out'' ''p_s_x_y.cql'' ''Y''], uuids_drawn = 0\<rparr>)"
    by (simp add: example_defs example2_defs spec_writes_def spec_item_writes_def spec_filename_def)
  from inst [where sr = ?sr and ?w2.0 = ?w2 and cs = "[Some ''X'', None]" and ?w3.0 = ?w3,
      THEN conjunct2, THEN conjunct2, THEN conjunct1] cs ro
  have c: "trace (snd (snd (syncSearchPage example_env2 example_opts world0))) =
       [Fetch (GET (url example_opts) ''Bearer t''),
        Fetch (POST ''https://api.github.com/graphql'' ''Bearer t'' example_query2),
        Mkdir ''out'', WriteFile ''out'' ''o_r_a_b_c.sql'' ''X'']"
    by (simp add: example_defs example2_defs spec_writes_def spec_item_writes_def spec_filename_def)
  from run a b c show ?thesis by simp
qed

section \<open>Contents by position\<close>

lemma key_at_filter:
  "key_at e w i = ''q'' @ filter (\<lambda>c. c \<noteq> CHR ''-'') (randomUUID e (uuids_drawn w + i))"
  by (simp add: key_at_def fresh_key_def replaceAll_delete)

lemma fragment_for_literal:
  "fragment_for key item =
     key @ '': repository(owner: '' @ [CHR 0x22]
     @ login (owner (repository item)) @ [CHR 0x22] @ '', name: ''
     @ [CHR 0x22] @ repo_name (repository item) @ [CHR 0x22]
     @ '') {\<newline>    object(expression: '' @ [CHR 0x22] @ ''HEAD:''
     @ path item @ [CHR 0x22]
     @ '') {\<newline>        ... on Blob {\<newline>            text\<newline>        }\<newline>    }\<newline>}''"
  by (simp add: fragment_for_def graphQueryForObjectText_def dquote_def)

text \<open>
  C6. When the content fetcher succeeds, the content list is as long as the item list. The
  one request it sent holds one fragment per item, in item order; the i-th fragment is the
  text below, which addresses the owner, repository and path of the i-th item under the
  i-th key, and the i-th key is \<open>q\<close> followed by the i-th UUID drawn without its
  dashes. The i-th content is what \<open>json.data[key].object?.text || null\<close> reads under
  that same i-th key of the response: \<open>null\<close> when the aliased result has no object or
  no text, the text when it has a non-empty one.
\<close>

theorem retrieveObjectContents_positional:
  assumes "retrieveObjectContents e token its w = (Return (Inr contents), w')"
  shows "length contents = length its
       \<and> trace w' = trace w @ [Fetch (batch_request e token its w)]
       \<and> uuids_drawn w' = uuids_drawn w + length its
       \<and> (\<exists>frags.
             length frags = length its
             \<and> batch_request e token its w =
                 POST ''https://api.github.com/graphql'' (''Bearer '' @ token)
                   (''query {\<newline>'' @ join ''\<newline>'' frags @ ''\<newline>}'')
             \<and> (\<forall>i<length its.
                   key_at e w i =
                     ''q'' @ filter (\<lambda>c. c \<noteq> CHR ''-'') (randomUUID e (uuids_drawn w + i))
                   \<and> frags ! i =
                       key_at e w i @ '': repository(owner: '' @ [CHR 0x22]
                       @ login (owner (repository (its ! i))) @ [CHR 0x22] @ '', name: ''
                       @ [CHR 0x22] @ repo_name (repository (its ! i)) @ [CHR 0x22]
                       @ '') {\<newline>    object(expression: '' @ [CHR 0x22] @ ''HEAD:''
                       @ path (its ! i) @ [CHR 0x22]
                       @ '') {\<newline>        ... on Blob {\<newline>            text\<newline>        }\<newline>    }\<newline>}''))
       \<and> (\<exists>response body.
             graphql_api e (batch_request e token its w) = Some response
             \<and> json response = Some body
             \<and> (\<forall>i<length its. \<exists>d node.
                   data body = Some d \<and> d (key_at e w i) = Some node
                   \<and> contents ! i = text_or_null node
                   \<and> (object node = None \<longrightarrow> contents ! i = None)
                   \<and> (\<forall>ob. object node = Some ob \<and> blob_text ob = None \<longrightarrow> contents ! i = None)
                   \<and> (\<forall>ob t. object node = Some ob \<and> blob_text ob = Some t \<and> t \<noteq> [] \<longrightarrow>
                         contents ! i = Some t)))"
proof -
  from retrieveObjectContents_Inr [OF assms] obtain response body where
    resp: "graphql_api e (batch_request e token its w) = Some response" "json response = Some body"
    and rc: "read_contents body (map (key_at e w) [0..<length its]) [] = Return contents"
    and w': "w' = emit (Fetch (batch_request e token its w))
                    (w\<lparr>uuids_drawn := uuids_drawn w + length its\<rparr>)"
    by blast
  from read_contents_Return [OF rc] have len: "length contents = length its"
    and each: "\<forall>i<length its. \<exists>d node. data body = Some d \<and> d (key_at e w i) = Some node
        \<and> contents ! i = text_or_null node"
    by auto
  have "\<exists>d node. data body = Some d \<and> d (key_at e w i) = Some node
         \<and> contents ! i = text_or_null node
         \<and> (object node = None \<longrightarrow> contents ! i = None)
         \<and> (\<forall>ob. object node = Some ob \<and> blob_text ob = None \<longrightarrow> contents ! i = None)
         \<and> (\<forall>ob t. object node = Some ob \<and> blob_text ob = Some t \<and> t \<noteq> [] \<longrightarrow>
               contents ! i = Some t)"
    if "i < length its" for i
  proof -
    from each that obtain d node where n: "data body = Some d" "d (key_at e w i) = Some node"
      "contents ! i = text_or_null node" by blast
    then show ?thesis by (auto simp: text_or_null_def)
  qed
  with resp have reading: "\<exists>response body.
             graphql_api e (batch_request e token its w) = Some response
             \<and> json response = Some body
             \<and> (\<forall>i<length its. \<exists>d node.
                   data body = Some d \<and> d (key_at e w i) = Some node
                   \<and> contents ! i = text_or_null node
                   \<and> (object node = None \<longrightarrow> contents ! i = None)
                   \<and> (\<forall>ob. object node = Some ob \<and> blob_text ob = None \<longrightarrow> contents ! i = None)
                   \<and> (\<forall>ob t. object node = Some ob \<and> blob_text ob = Some t \<and> t \<noteq> [] \<longrightarrow>
                         contents ! i = Some t))"
    by blast
  have request: "\<exists>frags.
             length frags = length its
             \<and> batch_request e token its w =
                 POST ''https://api.github.com/graphql'' (''Bearer '' @ token)
                   (''query {\<newline>'' @ join ''\<newline>'' frags @ ''\<newline>}'')
             \<and> (\<forall>i<length its.
                   key_at e w i =
                     ''q'' @ filter (\<lambda>c. c \<noteq> CHR ''-'') (randomUUID e (uuids_drawn w + i))
                   \<and> frags ! i =
                       key_at e w i @ '': repository(owner: '' @ [CHR 0x22]
                       @ login (owner (repository (its ! i))) @ [CHR 0x22] @ '', name: ''
                       @ [CHR 0x22] @ repo_name (repository (its ! i)) @ [CHR 0x22]
                       @ '') {\<newline>    object(expression: '' @ [CHR 0x22] @ ''HEAD:''
                       @ path (its ! i) @ [CHR 0x22]
                       @ '') {\<newline>        ... on Blob {\<newline>            text\<newline>        }\<newline>    }\<newline>}'')"
  proof (intro exI conjI allI impI)
    show "length (map (\<lambda>i. fragment_for (key_at e w i) (its ! i)) [0..<length its]) = length its"
      by simp
    show "batch_request e token its w =
        POST ''https://api.github.com/graphql'' (''Bearer '' @ token)
          (''query {\<newline>''
           @ join ''\<newline>'' (map (\<lambda>i. fragment_for (key_at e w i) (its ! i)) [0..<length its])
           @ ''\<newline>}'')"
      by (simp only: batch_request_def)
  next
    fix i assume "i < length its"
    show "key_at e w i =
        ''q'' @ filter (\<lambda>c. c \<noteq> CHR ''-'') (randomUUID e (uuids_drawn w + i))"
      by (rule key_at_filter)
    from \<open>i < length its\<close>
    have "map (\<lambda>i. fragment_for (key_at e w i) (its ! i)) [0..<length its] ! i =
        fragment_for (key_at e w i) (its ! i)"
      by simp
    then show "map (\<lambda>i. fragment_for (key_at e w i) (its ! i)) [0..<length its] ! i =
        key_at e w i @ '': repository(owner: '' @ [CHR 0x22]
        @ login (owner (repository (its ! i))) @ [CHR 0x22] @ '', name: ''
        @ [CHR 0x22] @ repo_name (repository (its ! i)) @ [CHR 0x22]
        @ '') {\<newline>    object(expression: '' @ [CHR 0x22] @ ''HEAD:''
        @ path (its ! i) @ [CHR 0x22]
        @ '') {\<newline>        ... on Blob {\<newline>            text\<newline>        }\<newline>    }\<newline>}''"
      by (simp only: fragment_for_literal)
  qed
  from len w' have basic: "length contents = length its"
    "trace w' = trace w @ [Fetch (batch_request e token its w)]"
    "uuids_drawn w' = uuids_drawn w + length its"
    by (simp_all add: emit_def)
  show ?thesis
    by (rule conjI [OF basic(1) conjI [OF basic(2) conjI [OF basic(3) conjI [OF request reading]]]])
qed

theorem retrieveObjectContents_positional_witness:
  "retrieveObjectContents example_env2 ''t'' [example_item, example_item2] world0 =
     (Return (Inr [Some ''X'', None]),
      \<lparr>trace = [Fetch (POST ''https://api.github.com/graphql'' ''Bearer t'' example_query2)],
       uuids_drawn = 2\<rparr>)
   \<and> retrieveObjectContents example_env2 ''t'' [example_item2, example_item] world0 \<noteq>
       retrieveObjectContents example_env2 ''t'' [example_item, example_item2] world0
   \<and> key_at example_env2 world0 0 = ''qa1b2''
   \<and> key_at example_env2 world0 1 = ''qc3d4''
   \<and> batch_request example_env2 ''t'' [example_item, example_item2] world0 =
       POST ''https://api.github.com/graphql'' ''Bearer t'' example_query2
   \<and> length [Some ''X'', None :: string option] = length [example_item, example_item2]"
proof -
  have run: "retrieveObjectContents example_env2 ''t'' [example_item, example_item2] world0 =
     (Return (Inr [Some ''X'', None]),
      \<lparr>trace = [Fetch (POST ''https://api.github.com/graphql'' ''Bearer t'' example_query2)],
       uuids_drawn = 2\<rparr>)"
    by (simp add: example_defs example2_defs run_defs graphQueryForObjectText_def dquote_def)
  have other: "retrieveObjectContents example_env2 ''t'' [example_item2, example_item] world0 \<noteq>
       retrieveObjectContents example_env2 ''t'' [example_item, example_item2] world0"
    by (simp add: example_defs example2_defs run_defs graphQueryForObjectText_def dquote_def)
  have keys: "key_at example_env2 world0 0 = ''qa1b2''" "key_at example_env2 world0 1 = ''qc3d4''"
    by (simp_all add: example_defs example2_defs run_defs)
  from retrieveObjectContents_positional [OF run]
  have "trace \<lparr>trace = [Fetch (POST ''https://api.github.com/graphql'' ''Bearer t'' example_query2)],
          uuids_drawn = 2\<rparr> =
        trace world0 @ [Fetch (batch_request example_env2 ''t'' [example_item, example_item2] world0)]"
    by blast
  then have "batch_request example_env2 ''t'' [example_item, example_item2] world0 =
       POST ''https://api.github.com/graphql'' ''Bearer t'' example_query2"
    by (simp add: world0_def)
  with run other keys show ?thesis by simp
qed

section \<open>The empty page\<close>

text \<open>
  C7. For an empty item list the content fetcher still sends its request, with a query of
  zero fragments, whatever happens afterwards; when the response is a success (JSON, status
  neither 401 nor 403, a body that parses) it returns the empty content list, and it never
  returns any other list.
\<close>

theorem retrieveObjectContents_empty:
  "(\<exists>evs. trace (snd (retrieveObjectContents e token [] w)) =
       trace w @ Fetch (POST ''https://api.github.com/graphql'' (''Bearer '' @ token)
                          ''query {\<newline>\<newline>}'') # evs)
   \<and> (graphql_api e (POST ''https://api.github.com/graphql'' (''Bearer '' @ token)
                        ''query {\<newline>\<newline>}'') = Some response
        \<and> is_json response \<and> status response \<noteq> 401 \<and> status response \<noteq> 403
        \<and> json response = Some body \<longrightarrow>
      retrieveObjectContents e token [] w =
        (Return (Inr []),
         emit (Fetch (POST ''https://api.github.com/graphql'' (''Bearer '' @ token)
                        ''query {\<newline>\<newline>}'')) w))
   \<and> (retrieveObjectContents e token [] w = (Return (Inr contents), w') \<longrightarrow> contents = [])"
proof -
  have req: "batch_request e token [] w =
      POST ''https://api.github.com/graphql'' (''Bearer '' @ token) ''query {\<newline>\<newline>}''"
    by (simp add: batch_request_def)
  have a: "\<exists>evs. trace (snd (retrieveObjectContents e token [] w)) =
       trace w @ Fetch (POST ''https://api.github.com/graphql'' (''Bearer '' @ token)
                          ''query {\<newline>\<newline>}'') # evs"
    using retrieveObjectContents_trace [of e token "[]" w] by (simp only: req)
  have b: "retrieveObjectContents e token [] w =
        (Return (Inr []),
         emit (Fetch (POST ''https://api.github.com/graphql'' (''Bearer '' @ token)
                        ''query {\<newline>\<newline>}'')) w)"
    if "graphql_api e (POST ''https://api.github.com/graphql'' (''Bearer '' @ token)
                        ''query {\<newline>\<newline>}'') = Some response"
      "is_json response" "status response \<noteq> 401" "status response \<noteq> 403"
      "json response = Some body"
    using that
    by (simp add: retrieveObjectContents_def errorFromGitHubResponse_def Let_def await_def)
  have c: "contents = []" if "retrieveObjectContents e token [] w = (Return (Inr contents), w')"
    using retrieveObjectContents_Inr [OF that] by auto
  from a b c show ?thesis by blast
qed

theorem retrieveObjectContents_empty_witness:
  "graphql_api example_env (POST ''https://api.github.com/graphql'' (''Bearer '' @ ''t'')
       ''query {\<newline>\<newline>}'') = Some (example_graphql ''X'')
   \<and> is_json (example_graphql ''X'')
   \<and> retrieveObjectContents example_env ''t'' [] world0 =
       (Return (Inr []),
        \<lparr>trace = [Fetch (POST ''https://api.github.com/graphql'' ''Bearer t'' ''query {\<newline>\<newline>}'')],
         uuids_drawn = 0\<rparr>)"
proof -
  have api: "graphql_api example_env (POST ''https://api.github.com/graphql'' (''Bearer '' @ ''t'')
       ''query {\<newline>\<newline>}'') = Some (example_graphql ''X'')"
    by (simp add: example_env_def)
  have js: "is_json (example_graphql ''X'')"
    and st: "status (example_graphql ''X'') \<noteq> 401" "status (example_graphql ''X'') \<noteq> 403"
    and bd: "json (example_graphql ''X'') =
               Some \<lparr>data = Some [''qabcd'' \<mapsto> \<lparr>object = Some \<lparr>blob_text = Some ''X''\<rparr>\<rparr>]\<rparr>"
    by (simp_all add: example_defs is_json_def)
  from retrieveObjectContents_empty [of example_env "''t''" world0 "example_graphql ''X''"
      "\<lparr>data = Some [''qabcd'' \<mapsto> \<lparr>object = Some \<lparr>blob_text = Some ''X''\<rparr>\<rparr>]\<rparr>",
      THEN conjunct2, THEN conjunct1, THEN mp, OF conjI [OF api conjI [OF js conjI [OF st(1) conjI [OF st(2) bd]]]]]
  have "retrieveObjectContents example_env ''t'' [] world0 =
        (Return (Inr []),
         emit (Fetch (POST ''https://api.github.com/graphql'' (''Bearer '' @ ''t'')
                        ''query {\<newline>\<newline>}'')) world0)" .
  with api js show ?thesis by (simp add: emit_def world0_def)
qed

section \<open>Responses that are not JSON\<close>

text \<open>
  C8. A response whose content type is absent or does not start with
  \<open>application/json\<close> ends the process with exit code 1, whatever its status:
  \<open>errorFromGitHubResponse\<close> exits, and so does \<open>syncSearchPage\<close> when the response to
  the search request or to the content batch request is of that kind. No typed error is
  returned, and the error type has no variant but \<open>unauthorized\<close> and \<open>rate-limited\<close>.
\<close>

theorem non_json_response_is_fatal:
  "(\<not> is_json r \<longrightarrow> fst (errorFromGitHubResponse r w) = Exit 1)
   \<and> (search_api e (GET (url (set_page syncOpts)) (''Bearer '' @ ghToken syncOpts)) = Some response1
        \<and> \<not> is_json response1 \<longrightarrow>
      fst (syncSearchPage e syncOpts w) = Exit 1)
   \<and> (codeSearch e (set_page syncOpts) w = (Return (Inr sr), w1)
        \<and> graphql_api e (batch_request e (ghToken syncOpts) (items sr) w1) = Some response2
        \<and> \<not> is_json response2 \<longrightarrow>
      fst (syncSearchPage e syncOpts w) = Exit 1)
   \<and> (err = Unauthorized \<or> (\<exists>reset. err = RateLimited reset))"
proof -
  have a: "fst (errorFromGitHubResponse r w) = Exit 1" if "\<not> is_json r"
    using that by (simp add: errorFromGitHubResponse_not_json)
  have b: "fst (syncSearchPage e syncOpts w) = Exit 1"
    if "search_api e (GET (url (set_page syncOpts)) (''Bearer '' @ ghToken syncOpts)) = Some response1"
      "\<not> is_json response1"
    using that
    by (simp add: syncSearchPage_def codeSearch_def Let_def await_def set_page_fields
        errorFromGitHubResponse_not_json split: prod.splits)
  have c: "fst (syncSearchPage e syncOpts w) = Exit 1"
    if "codeSearch e (set_page syncOpts) w = (Return (Inr sr), w1)"
      "graphql_api e (batch_request e (ghToken syncOpts) (items sr) w1) = Some response2"
      "\<not> is_json response2"
    using that
    by (simp add: syncSearchPage_def retrieveObjectContents_def build_parts_eq Let_def await_def
        set_page_fields errorFromGitHubResponse_not_json batch_request_def split: prod.splits)
  have d: "err = Unauthorized \<or> (\<exists>reset. err = RateLimited reset)"
    by (cases err) simp_all
  from a b c d show ?thesis by blast
qed

theorem non_json_response_is_fatal_witness:
  "\<not> is_json (html_response :: unit Response)
   \<and> fst (errorFromGitHubResponse (html_response :: unit Response) world0) = Exit 1
   \<and> fst (syncSearchPage (example_env\<lparr>search_api := \<lambda>req. Some html_response\<rparr>) example_opts world0) = Exit 1
   \<and> fst (syncSearchPage (example_env\<lparr>graphql_api := \<lambda>req. Some html_response\<rparr>) example_opts world0) = Exit 1"
proof -
  let ?eA = "example_env\<lparr>search_api := \<lambda>req. Some html_response\<rparr>"
  let ?eB = "example_env\<lparr>graphql_api := \<lambda>req. Some html_response\<rparr>"
  let ?sr = "\<lparr>total_count = 250, incomplete_results = False, items = [example_item]\<rparr>"
  let ?w1 = "\<lparr>trace = [Fetch (GET (url example_opts) ''Bearer t'')], uuids_drawn = 0\<rparr>"
  have nj: "\<not> is_json (html_response :: unit Response)"
    "\<not> is_json (html_response :: CodeSearchResponse Response)"
    "\<not> is_json (html_response :: GraphQLBody Response)"
    by (simp_all add: html_response_def is_json_def)
  have apiA: "search_api ?eA (GET (url (set_page example_opts)) (''Bearer '' @ ghToken example_opts)) =
      Some html_response"
    by simp
  have csB: "codeSearch ?eB (set_page example_opts) world0 = (Return (Inr ?sr), ?w1)"
    by (simp add: example_defs run_defs)
  have apiB: "graphql_api ?eB (batch_request ?eB (ghToken example_opts) (items ?sr) ?w1) =
      Some html_response"
    by simp
  from non_json_response_is_fatal [of "html_response :: unit Response" world0, THEN conjunct1] nj(1)
  have a: "fst (errorFromGitHubResponse (html_response :: unit Response) world0) = Exit 1" by simp
  from non_json_response_is_fatal [where e = ?eA and syncOpts = example_opts and w = world0
      and ?response1.0 = html_response and r = "html_response :: unit Response",
      THEN conjunct2, THEN conjunct1] apiA nj(2)
  have b: "fst (syncSearchPage ?eA example_opts world0) = Exit 1" by blast
  from non_json_response_is_fatal [where e = ?eB and syncOpts = example_opts and w = world0
      and ?response2.0 = html_response and sr = ?sr and ?w1.0 = ?w1 and r = "html_response :: unit Response",
      THEN conjunct2, THEN conjunct2, THEN conjunct1] csB apiB nj(3)
  have c: "fst (syncSearchPage ?eB example_opts world0) = Exit 1" by blast
  from nj(1) a b c show ?thesis by simp
qed

section \<open>The page number and the URL\<close>

text \<open>
  C9, as amended. When a page number other than 0 is supplied, the URL's \<open>page\<close>
  parameter is set to the decimal string of that number (every other parameter and the rest
  of the URL are kept); when no page number is supplied, or the number 0, the URL is left
  unchanged and page 1 is used for the page counts. In every case the search request, the
  first event of the call, carries the URL as it is after this step.
\<close>

theorem syncSearchPage_sets_page:
  assumes "syncSearchPage e syncOpts w = (r, u, w')"
  shows "(page syncOpts = Some n \<and> n \<noteq> 0 \<longrightarrow>
            u = searchParams_set ''page'' (Number_toString n) (url syncOpts)
            \<and> searchParams_get u ''page'' = Some (Number_toString n)
            \<and> (\<forall>k. k \<noteq> ''page'' \<longrightarrow> searchParams_get u k = searchParams_get (url syncOpts) k)
            \<and> base u = base (url syncOpts))
       \<and> (page syncOpts = None \<or> page syncOpts = Some 0 \<longrightarrow>
            u = url syncOpts
            \<and> (\<forall>pg. r = Return (Success pg) \<longrightarrow> remaining pg = total' pg - 1))
       \<and> (\<exists>evs. trace w' = trace w @ Fetch (GET u (''Bearer '' @ ghToken syncOpts)) # evs)"
proof -
  from assms have u: "u = url (set_page syncOpts)" by (rule syncSearchPage_url)
  have set: "u = searchParams_set ''page'' (Number_toString n) (url syncOpts)
      \<and> searchParams_get u ''page'' = Some (Number_toString n)
      \<and> (\<forall>k. k \<noteq> ''page'' \<longrightarrow> searchParams_get u k = searchParams_get (url syncOpts) k)
      \<and> base u = base (url syncOpts)"
    if "page syncOpts = Some n" "n \<noteq> 0"
    using that
    by (simp add: u set_page_def searchParams_set_def searchParams_get_def params_set_same
        params_set_other)
  have keep: "u = url syncOpts \<and> (\<forall>pg. r = Return (Success pg) \<longrightarrow> remaining pg = total' pg - 1)"
    if p: "page syncOpts = None \<or> page syncOpts = Some 0"
  proof -
    from p have "u = url syncOpts" by (auto simp: u set_page_def)
    moreover have "remaining pg = total' pg - 1" if "r = Return (Success pg)" for pg
      using syncSearchPage_Success_fields [of e syncOpts w pg u w'] assms that p
      by (auto simp: page_or_1_def)
    ultimately show ?thesis by blast
  qed
  from syncSearchPage_trace [of e syncOpts w] assms
  have "\<exists>evs. trace w' = trace w @ Fetch (GET u (''Bearer '' @ ghToken syncOpts)) # evs"
    by (simp add: u)
  with set keep show ?thesis by blast
qed

theorem syncSearchPage_sets_page_witness:
  "searchParams_get (fst (snd (syncSearchPage example_env (example_opts\<lparr>page := Some 2\<rparr>) world0)))
      ''page'' = Some ''2''
   \<and> searchParams_get (fst (snd (syncSearchPage example_env (example_opts\<lparr>page := Some 2\<rparr>) world0)))
      ''q'' = Some ''extension:sql''
   \<and> fst (snd (syncSearchPage example_env example_opts world0)) = url example_opts"
  using syncSearchPage_sets_page [where e = example_env and syncOpts = "example_opts\<lparr>page := Some 2\<rparr>"
      and w = world0 and n = 2, OF pair3]
    syncSearchPage_sets_page [where e = example_env and syncOpts = example_opts and w = world0, OF pair3]
  by (simp add: example_opts_def Number_toString_def nat_toString.simps makeSearchURL_def
      searchParams_set_def searchParams_get_def new_URL_def)

text \<open>
  C9 as it is stated fails for the page number 0: the URL keeps its \<open>page=1\<close> and is
  not set to \<open>0\<close>.
\<close>

theorem syncSearchPage_page_zero_url_counterexample:
  "page (example_opts\<lparr>page := Some 0\<rparr>) = Some 0
   \<and> searchParams_get (fst (snd (syncSearchPage example_env (example_opts\<lparr>page := Some 0\<rparr>) world0)))
       ''page'' = Some ''1''
   \<and> Number_toString 0 = ''0''"
  by (simp add: example_defs run_defs)

section \<open>Empty text\<close>

text \<open>
  C10. When the batched response holds, under the key of the i-th item, a blob whose text is
  the empty string, the content fetcher reports \<open>null\<close> for that item; the round of
  the writer's loop for that item then leaves the world as it is, so no file is written
  for it.
\<close>

theorem empty_text_is_never_written:
  assumes "retrieveObjectContents e token its w = (Return (Inr contents), w')"
    and "i < length its"
    and "graphql_api e (batch_request e token its w) = Some response"
    and "json response = Some body"
    and "data body = Some d"
    and "d (key_at e w i) = Some node"
    and "object node = Some ob"
    and "blob_text ob = Some []"
  shows "contents ! i = None
       \<and> write_item dir its contents i w2 = w2
       \<and> item_writes dir (its ! i) (contents ! i) = []"
proof -
  from retrieveObjectContents_Inr [OF assms(1)] assms(3,4)
  have rc: "read_contents body (map (key_at e w) [0..<length its]) [] = Return contents"
    by auto
  from read_contents_Return [OF rc] assms(2) have len: "length contents = length its"
    and "\<exists>d node. data body = Some d \<and> d (key_at e w i) = Some node
        \<and> contents ! i = text_or_null node"
    by auto
  with assms(5-8) have none: "contents ! i = None" by (auto simp: text_or_null_def)
  with len assms(2) show ?thesis
    by (simp add: write_item_def at_index_def item_writes_def)
qed

theorem empty_text_is_never_written_witness:
  "retrieveObjectContents (example_env\<lparr>graphql_api := \<lambda>req. Some (example_graphql [])\<rparr>) ''t''
       [example_item] world0 =
     (Return (Inr [None]),
      \<lparr>trace = [Fetch (batch_request example_env ''t'' [example_item] world0)], uuids_drawn = 1\<rparr>)
   \<and> [None] ! 0 = (None :: string option)
   \<and> write_item ''out'' [example_item] [None] 0 world0 = world0
   \<and> trace (snd (snd (syncSearchPage
        (example_env\<lparr>graphql_api := \<lambda>req. Some (example_graphql [])\<rparr>) example_opts world0))) =
       [Fetch (GET (url example_opts) ''Bearer t''),
        Fetch (batch_request example_env ''t'' [example_item] world0),
        Mkdir ''out'']"
proof -
  let ?e = "example_env\<lparr>graphql_api := \<lambda>req. Some (example_graphql [])\<rparr>"
  have run: "retrieveObjectContents ?e ''t'' [example_item] world0 =
     (Return (Inr [None]),
      \<lparr>trace = [Fetch (batch_request example_env ''t'' [example_item] world0)], uuids_drawn = 1\<rparr>)"
    by (simp add: example_defs run_defs)
  have i: "0 < length [example_item]" by simp
  have api: "graphql_api ?e (batch_request ?e ''t'' [example_item] world0) = Some (example_graphql [])"
    by (simp add: example_env_def)
  have bd: "json (example_graphql []) =
      Some \<lparr>data = Some [''qabcd'' \<mapsto> \<lparr>object = Some \<lparr>blob_text = Some []\<rparr>\<rparr>]\<rparr>"
    by (simp add: example_graphql_def)
  have dt: "data \<lparr>data = Some [''qabcd'' \<mapsto> \<lparr>object = Some \<lparr>blob_text = Some []\<rparr>\<rparr>]\<rparr> =
      Some [''qabcd'' \<mapsto> \<lparr>object = Some \<lparr>blob_text = Some []\<rparr>\<rparr>]"
    by simp
  have nd: "[''qabcd'' \<mapsto> \<lparr>object = Some \<lparr>blob_text = Some []\<rparr>\<rparr>] (key_at ?e world0 0) =
      Some \<lparr>object = Some \<lparr>blob_text = Some []\<rparr>\<rparr>"
    by (simp add: example_defs run_defs)
  have ob: "object \<lparr>object = Some \<lparr>blob_text = Some []\<rparr>\<rparr> = Some \<lparr>blob_text = Some []\<rparr>"
    and tx: "blob_text \<lparr>blob_text = Some []\<rparr> = Some []"
    by simp_all
  have full: "trace (snd (snd (syncSearchPage ?e example_opts world0))) =
       [Fetch (GET (url example_opts) ''Bearer t''),
        Fetch (batch_request example_env ''t'' [example_item] world0),
        Mkdir ''out'']"
    by (simp add: example_defs run_defs)
  from empty_text_is_never_written [OF run i api bd dt nd ob tx, of "''out''" world0] run full
  show ?thesis by simp
qed

end
